theory Spec2Isabelle
  imports Main
begin

section \<open>Values read from the status file\<close>

text \<open>
  The monitor of \<^verbatim>\<open>examples/status_monitoring.py\<close> works on whatever \<^verbatim>\<open>json.load\<close> returns:
  \<^verbatim>\<open>None\<close>, a bool, an unbounded int, a float, a str, a list or a dict. A float is an IEEE
  binary64 value: a finite one is \<open>Fin m e\<close>, the number \<open>m * 2 ^ e\<close> (so 60.5 is
  \<open>Fin 121 (- 1)\<close>), and negative zero, the two infinities and NaN (which \<^verbatim>\<open>json.load\<close>
  accepts as \<^verbatim>\<open>Infinity\<close> and \<^verbatim>\<open>NaN\<close>) are values of their own. A dict is an association
  list read with \<open>map_of\<close>.
\<close>

datatype pyfloat = Fin int int | NegZero | PosInf | NegInf | NaN

datatype json =
    JNull
  | JBool bool
  | JInt int
  | JFloat pyfloat
  | JStr string
  | JArr "json list"
  | JObj "(string \<times> json) list"

text \<open>The exceptions the monitor can meet, and results that are a value or an exception.\<close>

datatype py_exc =
    KeyError string
  | TypeError
  | ValueError
  | OverflowError
  | AttributeError
  | JSONDecodeError
  | FileNotFoundError
  | OSError
  | UnicodeDecodeError
  | RecursionError

definition bnd :: "py_exc + 'a \<Rightarrow> ('a \<Rightarrow> py_exc + 'b) \<Rightarrow> py_exc + 'b" where
  "bnd r f = (case r of Inl e \<Rightarrow> Inl e | Inr v \<Rightarrow> f v)"

section \<open>Float arithmetic\<close>

text \<open>
  The finite float \<open>Fin m e\<close> is the fraction \<open>numer m e / denom e\<close> of two ints, the second
  one positive.
\<close>

definition numer :: "int \<Rightarrow> int \<Rightarrow> int" where
  "numer m e = (if 0 \<le> e then m * 2 ^ nat e else m)"

definition denom :: "int \<Rightarrow> int" where
  "denom e = (if 0 \<le> e then 1 else 2 ^ nat (- e))"

text \<open>\<open>a / b\<close> rounded to the nearest int, ties to even, for \<open>0 \<le> a\<close> and \<open>0 < b\<close>.\<close>

definition nearest :: "int \<Rightarrow> int \<Rightarrow> int \<Rightarrow> int" where
  "nearest q twice_rest b =
     (if twice_rest < b then q else if b < twice_rest then q + 1
      else if even q then q else q + 1)"

definition rnd_half_even :: "int \<Rightarrow> int \<Rightarrow> int" where
  "rnd_half_even a b = nearest (a div b) (2 * (a mod b)) b"

fun bitlen :: "nat \<Rightarrow> nat" where
  "bitlen n = (if n = 0 then 0 else Suc (bitlen (n div 2)))"

declare bitlen.simps [simp del]

text \<open>
  \<open>a / b\<close> (with \<open>0 < a\<close> and \<open>0 < b\<close>) rounded to the nearest binary64 value, ties to even,
  as mantissa and exponent. \<open>leading a b\<close> is the exponent of the leading bit of \<open>a / b\<close>;
  the mantissa has 53 bits, so the last bit has exponent \<open>leading a b - 52\<close>, but never less
  than \<open>- 1074\<close>; and there is no result once the rounded value reaches \<open>2 ^ 1024\<close>.
\<close>

definition leading_from :: "int \<Rightarrow> int \<Rightarrow> int \<Rightarrow> int" where
  "leading_from a b e0 =
     (if (if 0 \<le> e0 then b * 2 ^ nat e0 \<le> a else b \<le> a * 2 ^ nat (- e0)) then e0 else e0 - 1)"

definition leading :: "int \<Rightarrow> int \<Rightarrow> int" where
  "leading a b = leading_from a b (int (bitlen (nat a)) - int (bitlen (nat b)))"

definition mantissa :: "int \<Rightarrow> int \<Rightarrow> int \<Rightarrow> int" where
  "mantissa a b s = (if 0 \<le> s then rnd_half_even a (b * 2 ^ nat s)
                     else rnd_half_even (a * 2 ^ nat (- s)) b)"

definition in_range :: "int \<Rightarrow> int \<Rightarrow> (int \<times> int) option" where
  "in_range m s = (if 0 \<le> s \<and> 2 ^ 1024 \<le> m * 2 ^ nat s then None else Some (m, s))"

definition round_at :: "int \<Rightarrow> int \<Rightarrow> int \<Rightarrow> (int \<times> int) option" where
  "round_at a b s = in_range (mantissa a b s) s"

definition round_double :: "int \<Rightarrow> int \<Rightarrow> (int \<times> int) option" where
  "round_double a b =
     (if a = 0 then Some (0, 0) else round_at a b (max (leading a b) (- 1022) - 52))"

text \<open>
  \<^verbatim>\<open>x / d\<close> for a float \<open>x\<close> and a positive int constant \<open>d\<close> (60 and 3600 in the source, both
  exact as floats): the sign is kept, the magnitude only shrinks, and a negative quotient
  that rounds to zero is negative zero.
\<close>

fun signed :: "bool \<Rightarrow> int \<times> int \<Rightarrow> pyfloat" where
  "signed neg (m, s) = (if neg then (if m = 0 then NegZero else Fin (- m) s) else Fin m s)"

definition float_div :: "pyfloat \<Rightarrow> int \<Rightarrow> pyfloat" where
  "float_div x d = (case x of
       Fin m e \<Rightarrow> (case round_double (numer \<bar>m\<bar> e) (denom e * d) of
                     None \<Rightarrow> (if m < 0 then NegInf else PosInf)
                   | Some r \<Rightarrow> signed (m < 0) r)
     | NegZero \<Rightarrow> NegZero
     | PosInf \<Rightarrow> PosInf
     | NegInf \<Rightarrow> NegInf
     | NaN \<Rightarrow> NaN)"

text \<open>\<^verbatim>\<open>float(n)\<close> and \<^verbatim>\<open>n / d\<close> for ints: correctly rounded, OverflowError when too large.\<close>

definition float_of_ratio :: "int \<Rightarrow> int \<Rightarrow> py_exc + pyfloat" where
  "float_of_ratio n d = (case round_double \<bar>n\<bar> d of
       None \<Rightarrow> Inl OverflowError
     | Some r \<Rightarrow> Inr (signed (n < 0) r))"

text \<open>\<^verbatim>\<open>x < c\<close> for a float and an int constant; every comparison with NaN is false.\<close>

definition float_less :: "pyfloat \<Rightarrow> int \<Rightarrow> bool" where
  "float_less x c = (case x of
       Fin m e \<Rightarrow> numer m e < c * denom e
     | NegZero \<Rightarrow> 0 < c
     | PosInf \<Rightarrow> False
     | NegInf \<Rightarrow> True
     | NaN \<Rightarrow> False)"

text \<open>\<^verbatim>\<open>x == y\<close> for floats: by value, the two zeros are equal, NaN equals nothing.\<close>

definition float_eq :: "pyfloat \<Rightarrow> pyfloat \<Rightarrow> bool" where
  "float_eq x y = (case x of
       Fin m e \<Rightarrow> (case y of
                     Fin n f \<Rightarrow> numer m e * denom f = numer n f * denom e
                   | NegZero \<Rightarrow> m = 0
                   | PosInf \<Rightarrow> False
                   | NegInf \<Rightarrow> False
                   | NaN \<Rightarrow> False)
     | NegZero \<Rightarrow> (case y of
                     Fin n f \<Rightarrow> n = 0
                   | NegZero \<Rightarrow> True
                   | PosInf \<Rightarrow> False
                   | NegInf \<Rightarrow> False
                   | NaN \<Rightarrow> False)
     | PosInf \<Rightarrow> y = PosInf
     | NegInf \<Rightarrow> y = NegInf
     | NaN \<Rightarrow> False)"

section \<open>Formatting\<close>

fun digits :: "nat \<Rightarrow> string" where
  "digits n = (if n < 10 then [''0123456789'' ! n]
               else digits (n div 10) @ [''0123456789'' ! (n mod 10)])"

declare digits.simps [simp del]

definition str_int :: "int \<Rightarrow> string" where
  "str_int n = (if n < 0 then ''-'' @ digits (nat (- n)) else digits (nat n))"

text \<open>The thousands separators of the format spec \<^verbatim>\<open>,\<close>: a comma before every group of three.\<close>

fun group3 :: "string \<Rightarrow> string" where
  "group3 (a # b # c # d # rest) = a # b # c # CHR '','' # group3 (d # rest)"
| "group3 ds = ds"

definition commas :: "string \<Rightarrow> string" where
  "commas ds = rev (group3 (rev ds))"

definition comma_int :: "int \<Rightarrow> string" where
  "comma_int n = (if n < 0 then ''-'' @ commas (digits (nat (- n))) else commas (digits (nat n)))"

text \<open>
  Fixed-point formatting \<^verbatim>\<open>.kf\<close> of a float: the exact value is rounded to \<open>k\<close> decimals, ties
  to even (\<open>n\<close> is the rounded value in units of \<open>10 ^ - k\<close>), the sign is printed also when
  the digits are all zero, and the fraction is padded with zeros on the left.
\<close>

definition pad :: "nat \<Rightarrow> string \<Rightarrow> string" where
  "pad k ds = replicate (k - length ds) CHR ''0'' @ ds"

definition fixed_digits :: "nat \<Rightarrow> nat \<Rightarrow> string" where
  "fixed_digits k n = digits (n div 10 ^ k) @ ''.'' @ pad k (digits (n mod 10 ^ k))"

definition fixed_mag :: "nat \<Rightarrow> int \<Rightarrow> int \<Rightarrow> string" where
  "fixed_mag k m e = fixed_digits k (nat (rnd_half_even (numer m e * 10 ^ k) (denom e)))"

definition signed_fixed :: "nat \<Rightarrow> int \<Rightarrow> int \<Rightarrow> string" where
  "signed_fixed k m e = (if m < 0 then ''-'' @ fixed_mag k (- m) e else fixed_mag k m e)"

definition float_fixed :: "nat \<Rightarrow> pyfloat \<Rightarrow> string" where
  "float_fixed k x = (case x of
       Fin m e \<Rightarrow> signed_fixed k m e
     | NegZero \<Rightarrow> ''-'' @ fixed_mag k 0 0
     | PosInf \<Rightarrow> ''inf''
     | NegInf \<Rightarrow> ''-inf''
     | NaN \<Rightarrow> ''nan'')"

section \<open>Operations of the language on parsed values\<close>

text \<open>
  The text \<^verbatim>\<open>str()\<close> gives a float, a list or a dict, and the text of a float under the
  format spec \<^verbatim>\<open>,\<close>, are built into the language (shortest round-trip digits, quoting
  of nested strings); the monitor only passes them on, so they are taken as parameters.
\<close>

record builtins =
  float_str :: "pyfloat \<Rightarrow> string"
  float_comma :: "pyfloat \<Rightarrow> string"
  container_str :: "json \<Rightarrow> string"

definition py_str :: "builtins \<Rightarrow> json \<Rightarrow> string" where
  "py_str B v = (case v of
       JNull \<Rightarrow> ''None''
     | JBool b \<Rightarrow> (if b then ''True'' else ''False'')
     | JInt n \<Rightarrow> str_int n
     | JFloat x \<Rightarrow> float_str B x
     | JStr s \<Rightarrow> s
     | JArr xs \<Rightarrow> container_str B v
     | JObj kvs \<Rightarrow> container_str B v)"

text \<open>\<^verbatim>\<open>f"{v:.kf}"\<close>: ints and bools are converted to float first; a str is a ValueError.\<close>

definition format_fixed :: "nat \<Rightarrow> json \<Rightarrow> py_exc + string" where
  "format_fixed k v = (case v of
       JFloat x \<Rightarrow> Inr (float_fixed k x)
     | JInt n \<Rightarrow> bnd (float_of_ratio n 1) (\<lambda>x. Inr (float_fixed k x))
     | JBool b \<Rightarrow> Inr (float_fixed k (Fin (if b then 1 else 0) 0))
     | JStr s \<Rightarrow> Inl ValueError
     | JNull \<Rightarrow> Inl TypeError
     | JArr xs \<Rightarrow> Inl TypeError
     | JObj kvs \<Rightarrow> Inl TypeError)"

text \<open>\<^verbatim>\<open>f"{v:,}"\<close>.\<close>

definition format_comma :: "builtins \<Rightarrow> json \<Rightarrow> py_exc + string" where
  "format_comma B v = (case v of
       JInt n \<Rightarrow> Inr (comma_int n)
     | JBool b \<Rightarrow> Inr (comma_int (if b then 1 else 0))
     | JFloat x \<Rightarrow> Inr (float_comma B x)
     | JStr s \<Rightarrow> Inl ValueError
     | JNull \<Rightarrow> Inl TypeError
     | JArr xs \<Rightarrow> Inl TypeError
     | JObj kvs \<Rightarrow> Inl TypeError)"

text \<open>\<^verbatim>\<open>v < c\<close> and \<^verbatim>\<open>v / d\<close> with an int constant on the right.\<close>

definition py_less :: "json \<Rightarrow> int \<Rightarrow> py_exc + bool" where
  "py_less v c = (case v of
       JInt n \<Rightarrow> Inr (n < c)
     | JBool b \<Rightarrow> Inr ((if b then 1 else 0) < c)
     | JFloat x \<Rightarrow> Inr (float_less x c)
     | JNull \<Rightarrow> Inl TypeError
     | JStr s \<Rightarrow> Inl TypeError
     | JArr xs \<Rightarrow> Inl TypeError
     | JObj kvs \<Rightarrow> Inl TypeError)"

definition py_div :: "json \<Rightarrow> int \<Rightarrow> py_exc + json" where
  "py_div v d = (case v of
       JInt n \<Rightarrow> bnd (float_of_ratio n d) (\<lambda>x. Inr (JFloat x))
     | JBool b \<Rightarrow> bnd (float_of_ratio (if b then 1 else 0) d) (\<lambda>x. Inr (JFloat x))
     | JFloat x \<Rightarrow> Inr (JFloat (float_div x d))
     | JNull \<Rightarrow> Inl TypeError
     | JStr s \<Rightarrow> Inl TypeError
     | JArr xs \<Rightarrow> Inl TypeError
     | JObj kvs \<Rightarrow> Inl TypeError)"

text \<open>Truth value of a parsed value, as \<^verbatim>\<open>if v:\<close> takes it.\<close>

definition truthy :: "json \<Rightarrow> bool" where
  "truthy v = (case v of
       JNull \<Rightarrow> False
     | JBool b \<Rightarrow> b
     | JInt n \<Rightarrow> n \<noteq> 0
     | JFloat x \<Rightarrow> \<not> float_eq x (Fin 0 0)
     | JStr s \<Rightarrow> s \<noteq> []
     | JArr xs \<Rightarrow> xs \<noteq> []
     | JObj kvs \<Rightarrow> kvs \<noteq> [])"

text \<open>
  \<^verbatim>\<open>a == b\<close>: numbers (bools, ints, floats) compare by exact value and NaN equals nothing,
  lists compare element by element, dicts key by key. Inside a list or a dict two elements
  that are the same object count as equal before they are compared, and every NaN that
  \<^verbatim>\<open>json.load\<close> returns is the one object \<^verbatim>\<open>json.decoder.NaN\<close>: there NaN equals NaN.
\<close>

definition num_val :: "json \<Rightarrow> pyfloat option" where
  "num_val v = (case v of
       JBool b \<Rightarrow> Some (Fin (if b then 1 else 0) 0)
     | JInt n \<Rightarrow> Some (Fin n 0)
     | JFloat x \<Rightarrow> Some x
     | JNull \<Rightarrow> None
     | JStr s \<Rightarrow> None
     | JArr xs \<Rightarrow> None
     | JObj kvs \<Rightarrow> None)"

definition same_nan :: "json \<Rightarrow> json \<Rightarrow> bool" where
  "same_nan a b = (a = JFloat NaN \<and> b = JFloat NaN)"

function (sequential) py_eq :: "json \<Rightarrow> json \<Rightarrow> bool" where
  "py_eq JNull JNull = True"
| "py_eq (JStr s) (JStr t) = (s = t)"
| "py_eq (JArr xs) (JArr ys) =
     (length xs = length ys \<and> (\<forall>(x, y) \<in> set (zip xs ys). same_nan x y \<or> py_eq x y))"
| "py_eq (JObj xs) (JObj ys) =
     (set (map fst xs) = set (map fst ys) \<and>
      (\<forall>k \<in> set (map fst xs).
         case map_of xs k of
           None \<Rightarrow> False
         | Some v \<Rightarrow> (case map_of ys k of
                       None \<Rightarrow> False
                     | Some w \<Rightarrow> same_nan v w \<or> py_eq v w)))"
| "py_eq a b =
     (case num_val a of
        None \<Rightarrow> False
      | Some x \<Rightarrow> (case num_val b of None \<Rightarrow> False | Some y \<Rightarrow> float_eq x y))"
  by pat_completeness auto
termination
proof (relation "measure (\<lambda>(a, b). size a)", goal_cases)
  case 1
  show ?case by simp
next
  case 2
  have member: "x \<in> set xs \<Longrightarrow> size x < Suc (size_list size xs)" for x :: json and xs
    by (induction xs) auto
  from 2 show ?case by (auto dest: set_zip_leftD [THEN member])
next
  case 3
  have looked_up: "map_of kvs k = Some v \<Longrightarrow> size v < Suc (size_list (size_prod (\<lambda>_. 0) size) kvs)"
    for kvs :: "(string \<times> json) list" and k v
    by (induction kvs) (auto split: if_splits)
  from 3 show ?case by (auto dest: looked_up)
qed

declare py_eq.simps [simp del]

text \<open>\<^verbatim>\<open>status[key]\<close> and \<^verbatim>\<open>status.get(key)\<close>.\<close>

definition getitem :: "json \<Rightarrow> string \<Rightarrow> py_exc + json" where
  "getitem s k = (case s of
       JObj kvs \<Rightarrow> (case map_of kvs k of None \<Rightarrow> Inl (KeyError k) | Some v \<Rightarrow> Inr v)
     | JNull \<Rightarrow> Inl TypeError
     | JBool b \<Rightarrow> Inl TypeError
     | JInt n \<Rightarrow> Inl TypeError
     | JFloat x \<Rightarrow> Inl TypeError
     | JStr t \<Rightarrow> Inl TypeError
     | JArr xs \<Rightarrow> Inl TypeError)"

definition dict_get :: "json \<Rightarrow> string \<Rightarrow> py_exc + json" where
  "dict_get s k = (case s of
       JObj kvs \<Rightarrow> Inr (case map_of kvs k of None \<Rightarrow> JNull | Some v \<Rightarrow> v)
     | JNull \<Rightarrow> Inl AttributeError
     | JBool b \<Rightarrow> Inl AttributeError
     | JInt n \<Rightarrow> Inl AttributeError
     | JFloat x \<Rightarrow> Inl AttributeError
     | JStr t \<Rightarrow> Inl AttributeError
     | JArr xs \<Rightarrow> Inl AttributeError)"

text \<open>
  \<^verbatim>\<open>time.sleep(interval)\<close> with the float \<^verbatim>\<open>--interval\<close> delivers. The length is turned into a
  64-bit count of nanoseconds: it is multiplied by \<open>10 ^ 9\<close> as a float, so the product is
  rounded to the nearest float, and the product is rounded away from zero to a whole number
  \<open>d\<close>. NaN is a ValueError; a count outside \<open>- (2 ^ 63) \<le> d < 2 ^ 63\<close> is an OverflowError;
  after that a negative count is a ValueError. The count of a negative float is negative,
  at most \<open>- 1\<close>; the count of negative zero is zero. Below, \<open>d\<close> is the magnitude of the
  count.
\<close>

definition round_up :: "int \<times> int \<Rightarrow> int" where
  "round_up r = (if 0 \<le> snd r then fst r * 2 ^ nat (snd r)
                 else - ((- fst r) div 2 ^ nat (- snd r)))"

definition nanoseconds :: "int \<Rightarrow> int \<Rightarrow> int option" where
  "nanoseconds m e = map_option round_up (round_double (numer \<bar>m\<bar> e * 10 ^ 9) (denom e))"

definition sleep_count :: "bool \<Rightarrow> int \<Rightarrow> py_exc + unit" where
  "sleep_count negative d =
     (if (if negative then 2 ^ 63 < d else 2 ^ 63 \<le> d) then Inl OverflowError
      else if negative then Inl ValueError
      else Inr ())"

definition sleep_finite :: "int \<Rightarrow> int \<Rightarrow> py_exc + unit" where
  "sleep_finite m e = (case nanoseconds m e of
       None \<Rightarrow> Inl OverflowError
     | Some d \<Rightarrow> sleep_count (m < 0) d)"

definition sleep :: "pyfloat \<Rightarrow> py_exc + unit" where
  "sleep x = (case x of
       Fin m e \<Rightarrow> sleep_finite m e
     | NegZero \<Rightarrow> Inr ()
     | PosInf \<Rightarrow> Inl OverflowError
     | NegInf \<Rightarrow> Inl OverflowError
     | NaN \<Rightarrow> Inl ValueError)"

section \<open>The monitor\<close>

subsection \<open>\<^verbatim>\<open>format_duration\<close> (lines 24 to 33)\<close>

definition format_duration :: "json \<Rightarrow> py_exc + string" where
  "format_duration seconds =
     bnd (py_less seconds 60) (\<lambda>under_minute.
       if under_minute then
         bnd (format_fixed 1 seconds) (\<lambda>t. Inr (t @ ''s''))
       else
         bnd (py_less seconds 3600) (\<lambda>under_hour.
           if under_hour then
             bnd (py_div seconds 60) (\<lambda>minutes.
             bnd (format_fixed 1 minutes) (\<lambda>t. Inr (t @ ''m'')))
           else
             bnd (py_div seconds 3600) (\<lambda>hours.
             bnd (format_fixed 1 hours) (\<lambda>t. Inr (t @ ''h'')))))"

subsection \<open>The state and the output\<close>

text \<open>
  The monitor's only variable is \<^verbatim>\<open>last_iteration\<close>, which holds whatever value the last
  changed snapshot had under \<^verbatim>\<open>current_iteration\<close>. Standard output is the list of the
  strings given to \<^verbatim>\<open>print\<close>, one entry for each call, as UTF-8 bytes.
\<close>

record monitor =
  last_iteration :: json
  stdout :: "string list"

definition print :: "string \<Rightarrow> monitor \<Rightarrow> monitor" where
  "print s m = m\<lparr>stdout := stdout m @ [s]\<rparr>"

definition completed_notice :: string where
  "completed_notice = [CHR 0x0A, CHR 0xE2, CHR 0x9C, CHR 0x85] @ '' Training completed!''"

definition failed_notice :: string where
  "failed_notice = [CHR 0x0A, CHR 0xE2, CHR 0x9D, CHR 0x8C] @ '' Training failed!''"

definition stopped_notice :: string where
  "stopped_notice = [CHR 0x0A, CHR 0x0A] @ ''Monitoring stopped by user.''"

text \<open>\<^verbatim>\<open>str(e)\<close> of the KeyError of one of the key names the monitor reads: the name in quotes.\<close>

definition key_repr :: "string \<Rightarrow> string" where
  "key_repr k = [CHR 0x27] @ k @ [CHR 0x27]"

subsection \<open>Rendering the status line (lines 67 to 93)\<close>

text \<open>Lines 85 to 88: the evaluation metrics, guarded by \<^verbatim>\<open>last_eval_psnr\<close> alone.\<close>

definition metrics_segment :: "json \<Rightarrow> py_exc + string" where
  "metrics_segment status =
     bnd (dict_get status ''last_eval_psnr'') (\<lambda>g.
       if g \<noteq> JNull then
         bnd (getitem status ''last_eval_psnr'') (\<lambda>psnr.
         bnd (getitem status ''last_eval_ssim'') (\<lambda>ssim.
         bnd (format_fixed 2 psnr) (\<lambda>a.
         bnd (format_fixed 3 ssim) (\<lambda>b.
           Inr ('' | PSNR: '' @ a @ '' | SSIM: '' @ b)))))
       else Inr [])"

text \<open>Lines 91 to 93: the last export.\<close>

definition export_segment :: "builtins \<Rightarrow> json \<Rightarrow> py_exc + string" where
  "export_segment B status =
     bnd (dict_get status ''current_export_file'') (\<lambda>g.
       if truthy g then
         bnd (getitem status ''current_export_file'') (\<lambda>export_file.
           Inr ('' | Last export: '' @ py_str B export_file))
       else Inr [])"

text \<open>Lines 74 to 82, the f-string, once its pieces are formatted; \<open>now\<close> is the clock's
  \<^verbatim>\<open>%H:%M:%S\<close>.\<close>

definition base_line ::
  "string \<Rightarrow> string \<Rightarrow> string \<Rightarrow> string \<Rightarrow> string \<Rightarrow> string \<Rightarrow> string \<Rightarrow> string \<Rightarrow> string" where
  "base_line now iter total_iter progress elapsed remaining splats train_status =
     ''['' @ now @ ''] '' @
     ''Iter '' @ iter @ ''/'' @ total_iter @ '' '' @
     ''('' @ progress @ ''%) | '' @
     ''Elapsed: '' @ elapsed @ '' | '' @
     ''Remaining: '' @ remaining @ '' | '' @
     ''Splats: '' @ splats @ '' | '' @
     ''Status: '' @ train_status"

text \<open>
  Lines 67 to 93, in the order the source evaluates them: the five reads, the two durations
  as they are read, then the f-string from left to right, then the two optional segments.
  The result is \<^verbatim>\<open>train_status\<close> and the line.
\<close>

definition status_line :: "builtins \<Rightarrow> string \<Rightarrow> json \<Rightarrow> json \<Rightarrow> py_exc + json \<times> string" where
  "status_line B now status current_iter =
     bnd (getitem status ''progress_percentage'') (\<lambda>progress.
     bnd (getitem status ''elapsed_time_seconds'') (\<lambda>e.
     bnd (format_duration e) (\<lambda>elapsed.
     bnd (getitem status ''estimated_remaining_seconds'') (\<lambda>r.
     bnd (format_duration r) (\<lambda>remaining.
     bnd (getitem status ''current_splat_count'') (\<lambda>splat_count.
     bnd (getitem status ''status'') (\<lambda>train_status.
     bnd (getitem status ''total_iterations'') (\<lambda>total.
     bnd (format_fixed 1 progress) (\<lambda>p.
     bnd (format_comma B splat_count) (\<lambda>splats.
     bnd (metrics_segment status) (\<lambda>metrics.
     bnd (export_segment B status) (\<lambda>export.
       Inr (train_status,
            base_line now (py_str B current_iter) (py_str B total) p elapsed remaining splats
              (py_str B train_status) @ metrics @ export)))))))))))))"

subsection \<open>One pass of the loop (lines 52 to 114)\<close>

text \<open>How a block of statements ends.\<close>

datatype ctl = Fallthrough | Continue | Break | Raise py_exc

text \<open>
  Lines 97 to 105, after the status line is printed. The completion notice is printed
  before \<^verbatim>\<open>status['export_path']\<close> is read.
\<close>

definition check_completed :: "builtins \<Rightarrow> monitor \<Rightarrow> json \<Rightarrow> json \<Rightarrow> monitor \<times> ctl" where
  "check_completed B m status train_status =
     (if py_eq train_status (JStr ''completed'') then
        let m1 = print completed_notice m in
        (case dict_get status ''current_export_file'' of
           Inl e \<Rightarrow> (m1, Raise e)
         | Inr g \<Rightarrow>
             if truthy g then
               (case bnd (getitem status ''export_path'') (\<lambda>path.
                     bnd (getitem status ''current_export_file'') (\<lambda>file.
                       Inr (''Final output: '' @ py_str B path @ ''/'' @ py_str B file))) of
                  Inl e \<Rightarrow> (m1, Raise e)
                | Inr t \<Rightarrow> (print t m1, Break))
             else (m1, Break))
      else if py_eq train_status (JStr ''error'') then (print failed_notice m, Break)
      else (m, Fallthrough))"

text \<open>Lines 61 to 105: \<^verbatim>\<open>last_iteration\<close> is assigned before anything else of the snapshot is read.\<close>

definition poll_body :: "builtins \<Rightarrow> string \<Rightarrow> monitor \<Rightarrow> json \<Rightarrow> monitor \<times> ctl" where
  "poll_body B now m status =
     (case getitem status ''current_iteration'' of
        Inl e \<Rightarrow> (m, Raise e)
      | Inr current_iter \<Rightarrow>
          if \<not> py_eq current_iter (last_iteration m) then
            let m1 = m\<lparr>last_iteration := current_iter\<rparr> in
            (case status_line B now status current_iter of
               Inl e \<Rightarrow> (m1, Raise e)
             | Inr (train_status, line) \<Rightarrow>
                 check_completed B (print line m1) status train_status)
          else (m, Fallthrough))"

text \<open>
  What a pass finds at the path: no file; a file that is gone when it is opened; a file
  that cannot be opened or read for another reason; bytes that are not text in the encoding
  \<^verbatim>\<open>open\<close> reads with; text that is not JSON; JSON nested deeper than the parser's
  recursion goes; a parsed value.
\<close>

datatype artifact =
    Absent
  | Vanished
  | Unreadable
  | Undecodable
  | Malformed
  | TooDeep
  | Parsed json

text \<open>Lines 53 to 105, the body of the inner \<^verbatim>\<open>try\<close>.\<close>

definition try_body :: "builtins \<Rightarrow> pyfloat \<Rightarrow> string \<Rightarrow> monitor \<Rightarrow> artifact \<Rightarrow> monitor \<times> ctl" where
  "try_body B interval now m a = (case a of
       Absent \<Rightarrow>
         (let m1 = print ''Status file not found, waiting for training to start...'' m in
          case sleep interval of Inl e \<Rightarrow> (m1, Raise e) | Inr u \<Rightarrow> (m1, Continue))
     | Vanished \<Rightarrow> (m, Raise FileNotFoundError)
     | Unreadable \<Rightarrow> (m, Raise OSError)
     | Undecodable \<Rightarrow> (m, Raise UnicodeDecodeError)
     | Malformed \<Rightarrow> (m, Raise JSONDecodeError)
     | TooDeep \<Rightarrow> (m, Raise RecursionError)
     | Parsed status \<Rightarrow> poll_body B now m status)"

text \<open>Lines 107 to 112, the three \<^verbatim>\<open>except\<close> clauses; \<open>None\<close> when none of them matches.\<close>

definition handler :: "monitor \<Rightarrow> py_exc \<Rightarrow> monitor option" where
  "handler m e = (case e of
       JSONDecodeError \<Rightarrow> Some (print ''Status file corrupted, retrying...'' m)
     | FileNotFoundError \<Rightarrow> Some (print ''Status file disappeared, waiting...'' m)
     | KeyError k \<Rightarrow> Some (print (''Missing key in status file: '' @ key_repr k) m)
     | TypeError \<Rightarrow> None
     | ValueError \<Rightarrow> None
     | OverflowError \<Rightarrow> None
     | AttributeError \<Rightarrow> None
     | OSError \<Rightarrow> None
     | UnicodeDecodeError \<Rightarrow> None
     | RecursionError \<Rightarrow> None)"

text \<open>How a pass of the \<^verbatim>\<open>while True\<close> loop ends: on to the next pass, out of the loop by
  \<^verbatim>\<open>break\<close>, or out of the function by an exception no clause catches.\<close>

datatype outcome = Next | Stop | Uncaught py_exc

text \<open>Line 114.\<close>

definition sleep_then_next :: "pyfloat \<Rightarrow> monitor \<Rightarrow> monitor \<times> outcome" where
  "sleep_then_next interval m =
     (case sleep interval of Inl e \<Rightarrow> (m, Uncaught e) | Inr u \<Rightarrow> (m, Next))"

definition poll :: "builtins \<Rightarrow> pyfloat \<Rightarrow> string \<Rightarrow> monitor \<Rightarrow> artifact \<Rightarrow> monitor \<times> outcome" where
  "poll B interval now m a =
     (case try_body B interval now m a of
        (m1, Continue) \<Rightarrow> (m1, Next)
      | (m1, Break) \<Rightarrow> (m1, Stop)
      | (m1, Fallthrough) \<Rightarrow> sleep_then_next interval m1
      | (m1, Raise e) \<Rightarrow>
          (case handler m1 e of
             Some m2 \<Rightarrow> sleep_then_next interval m2
           | None \<Rightarrow> (m1, Uncaught e)))"

subsection \<open>The loop (lines 44 to 117)\<close>

text \<open>
  The loop has no bound of its own. It is run against what its passes find, one observation
  for each pass: the clock and the artifact, or the operator's interrupt during the pass.
  When the observations are used up the loop is still polling.
\<close>

datatype observation = Tick string artifact | CtrlC

datatype ending = Polling | Returned | Raised py_exc

fun run :: "builtins \<Rightarrow> pyfloat \<Rightarrow> monitor \<Rightarrow> observation list \<Rightarrow> monitor \<times> ending" where
  "run B interval m [] = (m, Polling)"
| "run B interval m (CtrlC # rest) = (print stopped_notice m, Returned)"
| "run B interval m (Tick now a # rest) =
     (case poll B interval now m a of
        (m1, Next) \<Rightarrow> run B interval m1 rest
      | (m1, Stop) \<Rightarrow> (m1, Returned)
      | (m1, Uncaught e) \<Rightarrow> (m1, Raised e))"

text \<open>\<open>status_file\<close> is the text of \<^verbatim>\<open>Path(status_file_path)\<close>.\<close>

definition initial :: "string \<Rightarrow> monitor" where
  "initial status_file =
     print (''Press Ctrl+C to stop monitoring'' @ [CHR 0x0A])
       (print (''Monitoring training progress from: '' @ status_file)
          \<lparr>last_iteration = JInt (- 1), stdout = []\<rparr>)"

definition monitor_training_progress ::
  "builtins \<Rightarrow> string \<Rightarrow> pyfloat \<Rightarrow> observation list \<Rightarrow> monitor \<times> ending" where
  "monitor_training_progress B status_file update_interval obs =
     run B update_interval (initial status_file) obs"

section \<open>The data model of the specification\<close>

text \<open>
  The field of a snapshot under a key, when the snapshot is an object that has the key; and
  the value of an optional field, which is null when the field is absent.
\<close>

definition field :: "json \<Rightarrow> string \<Rightarrow> json option" where
  "field s k = (case s of
       JObj kvs \<Rightarrow> map_of kvs k
     | JNull \<Rightarrow> None
     | JBool b \<Rightarrow> None
     | JInt n \<Rightarrow> None
     | JFloat x \<Rightarrow> None
     | JStr t \<Rightarrow> None
     | JArr xs \<Rightarrow> None)"

definition lookup :: "json \<Rightarrow> string \<Rightarrow> json" where
  "lookup s k = (case field s k of None \<Rightarrow> JNull | Some v \<Rightarrow> v)"

fun is_count :: "json \<Rightarrow> bool" where
  "is_count (JInt n) = (0 \<le> n)"
| "is_count v = False"

fun is_positive :: "json \<Rightarrow> bool" where
  "is_positive (JInt n) = (0 < n)"
| "is_positive v = False"

fun is_float :: "json \<Rightarrow> bool" where
  "is_float (JFloat x) = True"
| "is_float v = False"

fun is_duration :: "json \<Rightarrow> bool" where
  "is_duration (JFloat (Fin m e)) = (0 \<le> m)"
| "is_duration v = False"

fun is_str :: "json \<Rightarrow> bool" where
  "is_str (JStr t) = True"
| "is_str v = False"

definition required :: "(json \<Rightarrow> bool) \<Rightarrow> json \<Rightarrow> string \<Rightarrow> bool" where
  "required P s k = (case field s k of None \<Rightarrow> False | Some v \<Rightarrow> P v)"

definition optional :: "(json \<Rightarrow> bool) \<Rightarrow> json \<Rightarrow> string \<Rightarrow> bool" where
  "optional P s k = (case field s k of None \<Rightarrow> True | Some v \<Rightarrow> v = JNull \<or> P v)"

text \<open>
  A valid StatusSnapshot, after the data model: an object with the eight required fields,
  each of its type, and the four optional ones absent, null or of their type.
\<close>

definition valid_snapshot :: "json \<Rightarrow> bool" where
  "valid_snapshot s =
     (required is_count s ''current_iteration'' \<and>
      required is_positive s ''total_iterations'' \<and>
      required is_float s ''progress_percentage'' \<and>
      required is_duration s ''elapsed_time_seconds'' \<and>
      required is_duration s ''estimated_remaining_seconds'' \<and>
      required is_count s ''current_splat_count'' \<and>
      required is_str s ''status'' \<and>
      required is_str s ''last_updated'' \<and>
      optional is_float s ''last_eval_psnr'' \<and>
      optional is_float s ''last_eval_ssim'' \<and>
      optional is_str s ''current_export_file'' \<and>
      optional is_str s ''export_path'')"

text \<open>The two evaluation metrics are set together: no PSNR, or an SSIM with it.\<close>

definition metrics_paired :: "json \<Rightarrow> bool" where
  "metrics_paired s = (lookup s ''last_eval_psnr'' = JNull \<or> is_float (lookup s ''last_eval_ssim''))"

text \<open>An export that is named comes with the key of its directory.\<close>

definition export_located :: "json \<Rightarrow> bool" where
  "export_located s =
     (\<not> truthy (lookup s ''current_export_file'') \<or> field s ''export_path'' \<noteq> None)"

text \<open>
  The duration formatting rule in the specification's words: below 60 the seconds, from 60
  and below 3600 the minutes, from 3600 the hours, each to one decimal.
\<close>

definition at_least :: "pyfloat \<Rightarrow> int \<Rightarrow> bool" where
  "at_least x c = (case x of
       Fin m e \<Rightarrow> c * denom e \<le> numer m e
     | NegZero \<Rightarrow> c \<le> 0
     | PosInf \<Rightarrow> True
     | NegInf \<Rightarrow> False
     | NaN \<Rightarrow> False)"

definition non_negative :: "pyfloat \<Rightarrow> bool" where
  "non_negative x = at_least x 0"

definition duration_rule :: "pyfloat \<Rightarrow> string \<Rightarrow> bool" where
  "duration_rule v t =
     ((float_less v 60 \<longrightarrow> t = float_fixed 1 v @ ''s'') \<and>
      (at_least v 60 \<and> float_less v 3600 \<longrightarrow> t = float_fixed 1 (float_div v 60) @ ''m'') \<and>
      (at_least v 3600 \<longrightarrow> t = float_fixed 1 (float_div v 3600) @ ''h''))"

text \<open>
  The keys the status line reads, in the order the source reads them, and the first of them
  that a snapshot lacks.
\<close>

definition render_keys :: "string list" where
  "render_keys = [''progress_percentage'', ''elapsed_time_seconds'',
     ''estimated_remaining_seconds'', ''current_splat_count'', ''status'', ''total_iterations'']"

definition first_missing :: "json \<Rightarrow> string option" where
  "first_missing s = find (\<lambda>k. field s k = None) render_keys"

text \<open>A field that is absent or a float: reading it and formatting it as a duration raises
  nothing but the KeyError of the absent key.\<close>

definition float_if_present :: "json \<Rightarrow> string \<Rightarrow> bool" where
  "float_if_present s k = (case field s k of None \<Rightarrow> True | Some v \<Rightarrow> is_float v)"

text \<open>The notice of the \<^verbatim>\<open>except KeyError\<close> clause.\<close>

definition missing_key_notice :: "string \<Rightarrow> string" where
  "missing_key_notice k = ''Missing key in status file: '' @ key_repr k"

text \<open>
  What a pass prints after the status line: the notice of a terminal status, and after the
  completion notice the final output when an export is named.
\<close>

definition final_output :: "builtins \<Rightarrow> json \<Rightarrow> string" where
  "final_output B s =
     ''Final output: '' @ py_str B (lookup s ''export_path'') @ ''/'' @
       py_str B (lookup s ''current_export_file'')"

definition terminal_notices :: "builtins \<Rightarrow> json \<Rightarrow> string \<Rightarrow> string list" where
  "terminal_notices B s t =
     (if t = ''completed'' then
        completed_notice #
          (if truthy (lookup s ''current_export_file'') then [final_output B s] else [])
      else if t = ''error'' then [failed_notice]
      else [])"

section \<open>Concrete runs\<close>

text \<open>
  The snapshot of the specification's scenario; 10.0, 60.5 and 544.5 are the floats
  \<open>10\<close>, \<open>121 / 2\<close> and \<open>1089 / 2\<close>.
\<close>

definition scenario :: json where
  "scenario = JObj [
     (''current_iteration'', JInt 100),
     (''total_iterations'', JInt 1000),
     (''progress_percentage'', JFloat (Fin 10 0)),
     (''elapsed_time_seconds'', JFloat (Fin 121 (- 1))),
     (''estimated_remaining_seconds'', JFloat (Fin 1089 (- 1))),
     (''current_splat_count'', JInt 5000),
     (''status'', JStr ''training''),
     (''last_updated'', JStr ''2025-06-28T09:34:56Z'')]"

text \<open>The same with the given status, export file and export path.\<close>

definition scenario_with :: "json \<Rightarrow> json \<Rightarrow> json \<Rightarrow> json" where
  "scenario_with train_status export_file export_path = JObj [
     (''current_iteration'', JInt 100),
     (''total_iterations'', JInt 1000),
     (''progress_percentage'', JFloat (Fin 10 0)),
     (''elapsed_time_seconds'', JFloat (Fin 121 (- 1))),
     (''estimated_remaining_seconds'', JFloat (Fin 1089 (- 1))),
     (''current_splat_count'', JInt 5000),
     (''current_export_file'', export_file),
     (''export_path'', export_path),
     (''status'', train_status),
     (''last_updated'', JStr ''2025-06-28T09:34:56Z'')]"

definition scenario_completed :: json where
  "scenario_completed = scenario_with (JStr ''completed'') (JStr ''final.ply'') (JStr ''./out'')"

text \<open>The scenario after an evaluation that left a PSNR of 25.0 and no SSIM.\<close>

definition scenario_psnr_only :: json where
  "scenario_psnr_only = JObj [
     (''current_iteration'', JInt 100),
     (''total_iterations'', JInt 1000),
     (''progress_percentage'', JFloat (Fin 10 0)),
     (''elapsed_time_seconds'', JFloat (Fin 121 (- 1))),
     (''estimated_remaining_seconds'', JFloat (Fin 1089 (- 1))),
     (''current_splat_count'', JInt 5000),
     (''last_eval_psnr'', JFloat (Fin 25 0)),
     (''last_eval_ssim'', JNull),
     (''status'', JStr ''training''),
     (''last_updated'', JStr ''2025-06-28T09:34:56Z'')]"

text \<open>A snapshot that holds nothing but its iteration, and one with null durations.\<close>

definition iteration_only :: "int \<Rightarrow> json" where
  "iteration_only n = JObj [(''current_iteration'', JInt n)]"

definition null_durations :: json where
  "null_durations = JObj [
     (''current_iteration'', JInt 100),
     (''total_iterations'', JInt 1000),
     (''progress_percentage'', JFloat (Fin 10 0)),
     (''elapsed_time_seconds'', JNull),
     (''estimated_remaining_seconds'', JNull),
     (''current_splat_count'', JInt 5000),
     (''status'', JStr ''training''),
     (''last_updated'', JStr ''2025-06-28T09:34:56Z'')]"

text \<open>The monitor before its first pass, and with nothing printed after a pass that saw
  iteration \<open>n\<close>.\<close>

definition fresh :: monitor where
  "fresh = \<lparr>last_iteration = JInt (- 1), stdout = []\<rparr>"

definition seen :: "int \<Rightarrow> monitor" where
  "seen n = \<lparr>last_iteration = JInt n, stdout = []\<rparr>"

text \<open>
  The default interval 1.0, and builtins for the runs that print no float, list or dict.
\<close>

definition one_second :: pyfloat where
  "one_second = Fin 1 0"

definition plain :: builtins where
  "plain = \<lparr>float_str = (\<lambda>x. []), float_comma = (\<lambda>x. []), container_str = (\<lambda>v. [])\<rparr>"

text \<open>The status line of the scenario at a given clock reading.\<close>

definition scenario_line :: "string \<Rightarrow> string \<Rightarrow> string" where
  "scenario_line now train_status =
     ''['' @ now @ ''] Iter 100/1000 (10.0%) | Elapsed: 1.0m | Remaining: 9.1m | '' @
     ''Splats: 5,000 | Status: '' @ train_status"

section \<open>Evaluation rules\<close>

lemma bnd_Inl [simp]: "bnd (Inl e) f = Inl e"
  by (simp add: bnd_def)

lemma bnd_Inr [simp]: "bnd (Inr v) f = f v"
  by (simp add: bnd_def)

lemma bitlen_0 [simp]: "bitlen 0 = 0"
  by (simp add: bitlen.simps)

lemma bitlen_1 [simp]: "bitlen (Suc 0) = 1"
  by (simp add: bitlen.simps)

lemma bitlen_numeral [simp]: "bitlen (numeral k) = Suc (bitlen (numeral k div 2))"
  by (subst bitlen.simps) simp

lemma digits_0 [simp]: "digits 0 = ''0''"
  by (simp add: digits.simps)

lemma digits_1 [simp]: "digits (Suc 0) = ''1''"
  by (simp add: digits.simps)

lemma digits_numeral [simp]:
  "digits (numeral k) =
     (if (numeral k :: nat) < 10 then [''0123456789'' ! numeral k]
      else digits (numeral k div 10) @ [''0123456789'' ! (numeral k mod 10)])"
  by (subst digits.simps) simp

lemmas float_ev = numer_def denom_def nearest_def rnd_half_even_def leading_from_def leading_def
  mantissa_def in_range_def round_at_def round_double_def float_div_def float_of_ratio_def
  float_less_def float_eq_def

lemmas format_ev = str_int_def commas_def comma_int_def pad_def fixed_digits_def fixed_mag_def
  signed_fixed_def float_fixed_def py_str_def format_fixed_def format_comma_def py_less_def
  py_div_def format_duration_def

lemmas monitor_ev = truthy_def num_val_def getitem_def dict_get_def print_def
  key_repr_def metrics_segment_def export_segment_def base_line_def status_line_def
  check_completed_def poll_body_def try_body_def handler_def sleep_then_next_def poll_def
  Let_def

section \<open>Comparing iterations and statuses\<close>

lemma py_eq_ints [simp]: "py_eq (JInt a) (JInt b) = (a = b)"
  by (simp add: py_eq.simps num_val_def float_eq_def numer_def denom_def)

lemma py_eq_str [simp]: "py_eq v (JStr t) = (v = JStr t)"
  by (cases v) (simp_all add: py_eq.simps num_val_def)

section \<open>Sleeping\<close>

lemma sleep_one_second [simp]: "sleep one_second = Inr ()"
  by (simp add: sleep_def sleep_finite_def nanoseconds_def round_up_def sleep_count_def
      one_second_def float_ev)

lemma sleep_zero: "sleep (Fin 0 e) = Inr ()"
  by (simp add: sleep_def sleep_finite_def nanoseconds_def round_double_def round_up_def
      sleep_count_def numer_def)

lemma sleep_negative_zero: "sleep NegZero = Inr ()"
  by (simp add: sleep_def)

lemma sleep_negative: "n < 0 \<Longrightarrow> sleep (Fin n e) \<noteq> Inr ()"
  by (simp add: sleep_def sleep_finite_def sleep_count_def split: option.splits)

lemma sleep_minus_one: "sleep (Fin (- 1) 0) = Inl ValueError"
  by (simp add: sleep_def sleep_finite_def nanoseconds_def round_up_def sleep_count_def float_ev)

lemma sleep_fails_cases:
  "sleep i \<noteq> Inr () \<Longrightarrow> sleep i = Inl ValueError \<or> sleep i = Inl OverflowError"
  by (cases i) (auto simp: sleep_def sleep_finite_def sleep_count_def split: option.splits if_splits)

lemma handler_sleep_error: "sleep i = Inl e \<Longrightarrow> handler m e = None"
proof -
  assume e: "sleep i = Inl e"
  then have "sleep i \<noteq> Inr ()"
    by simp
  from sleep_fails_cases [OF this] e have "e = ValueError \<or> e = OverflowError"
    by auto
  then show ?thesis
    by (auto simp: handler_def)
qed

lemma sleep_then_next_fails: "sleep i \<noteq> Inr () \<Longrightarrow> snd (sleep_then_next i m) \<noteq> Next"
  by (cases "sleep i") (simp_all add: sleep_then_next_def)

section \<open>Reading fields\<close>

lemma field_object: "field s k = Some v \<Longrightarrow> \<exists>kvs. s = JObj kvs"
  by (cases s) (simp_all add: field_def)

lemma getitem_field: "field s k = Some v \<Longrightarrow> getitem s k = Inr v"
  by (cases s) (simp_all add: field_def getitem_def)

lemma getitem_absent: "field (JObj kvs) k = None \<Longrightarrow> getitem (JObj kvs) k = Inl (KeyError k)"
  by (simp add: field_def getitem_def)

lemma dict_get_object: "dict_get (JObj kvs) k = Inr (lookup (JObj kvs) k)"
  by (simp add: dict_get_def lookup_def field_def)

lemma lookup_field: "field s k = Some v \<Longrightarrow> lookup s k = v"
  by (simp add: lookup_def)

lemma lookup_absent: "field s k = None \<Longrightarrow> lookup s k = JNull"
  by (simp add: lookup_def)

lemma not_truthy_null [simp]: "\<not> truthy JNull"
  by (simp add: truthy_def)

lemma lookup_not_null: "lookup s k \<noteq> JNull \<Longrightarrow> field s k = Some (lookup s k)"
  by (simp add: lookup_def split: option.splits)

lemma required_field: "required P s k \<Longrightarrow> \<exists>v. field s k = Some v \<and> P v"
  by (simp add: required_def split: option.splits)

lemma is_count_cases: "is_count v \<Longrightarrow> \<exists>n. v = JInt n \<and> 0 \<le> n"
  by (cases v) simp_all

lemma is_positive_cases: "is_positive v \<Longrightarrow> \<exists>n. v = JInt n \<and> 0 < n"
  by (cases v) simp_all

lemma is_float_cases: "is_float v \<Longrightarrow> \<exists>x. v = JFloat x"
  by (cases v) simp_all

lemma is_duration_cases: "is_duration v \<Longrightarrow> \<exists>m e. v = JFloat (Fin m e) \<and> 0 \<le> m"
  by (induction v rule: is_duration.induct) simp_all

lemma is_str_cases: "is_str v \<Longrightarrow> \<exists>t. v = JStr t"
  by (cases v) simp_all

section \<open>Formatting never fails on floats\<close>

lemma format_fixed_float [simp]: "format_fixed k (JFloat x) = Inr (float_fixed k x)"
  by (simp add: format_fixed_def)

lemma format_duration_float:
  "format_duration (JFloat x) =
     Inr (if float_less x 60 then float_fixed 1 x @ ''s''
          else if float_less x 3600 then float_fixed 1 (float_div x 60) @ ''m''
          else float_fixed 1 (float_div x 3600) @ ''h'')"
  by (simp add: format_duration_def py_less_def py_div_def)

lemma format_comma_int [simp]: "format_comma B (JInt n) = Inr (comma_int n)"
  by (simp add: format_comma_def)

section \<open>The optional segments\<close>

lemma export_segment_object:
  "export_segment B (JObj kvs) =
     Inr (if truthy (lookup (JObj kvs) ''current_export_file'')
          then '' | Last export: '' @ py_str B (lookup (JObj kvs) ''current_export_file'')
          else [])"
proof (cases "truthy (lookup (JObj kvs) ''current_export_file'')")
  case True
  then have "lookup (JObj kvs) ''current_export_file'' \<noteq> JNull"
    by auto
  then have "getitem (JObj kvs) ''current_export_file'' = Inr (lookup (JObj kvs) ''current_export_file'')"
    by (simp add: lookup_not_null getitem_field)
  with True show ?thesis
    by (simp add: export_segment_def dict_get_object)
next
  case False
  then show ?thesis
    by (simp add: export_segment_def dict_get_object)
qed

lemma metrics_segment_absent:
  "lookup (JObj kvs) ''last_eval_psnr'' = JNull \<Longrightarrow> metrics_segment (JObj kvs) = Inr []"
  by (simp add: metrics_segment_def dict_get_object)

lemma metrics_segment_floats:
  assumes "field (JObj kvs) ''last_eval_psnr'' = Some (JFloat x)"
    and "field (JObj kvs) ''last_eval_ssim'' = Some (JFloat y)"
  shows "metrics_segment (JObj kvs) =
           Inr ('' | PSNR: '' @ float_fixed 2 x @ '' | SSIM: '' @ float_fixed 3 y)"
  using assms by (simp add: metrics_segment_def dict_get_object lookup_field getitem_field)

lemma metrics_segment_valid:
  assumes "optional is_float (JObj kvs) ''last_eval_psnr''" and "metrics_paired (JObj kvs)"
  shows "\<exists>t. metrics_segment (JObj kvs) = Inr t"
proof (cases "lookup (JObj kvs) ''last_eval_psnr'' = JNull")
  case True
  then show ?thesis by (simp add: metrics_segment_absent)
next
  case False
  then have p: "field (JObj kvs) ''last_eval_psnr'' = Some (lookup (JObj kvs) ''last_eval_psnr'')"
    by (rule lookup_not_null)
  with assms(1) False obtain x where x: "lookup (JObj kvs) ''last_eval_psnr'' = JFloat x"
    by (auto simp: optional_def dest: is_float_cases)
  from assms(2) False obtain y where y: "lookup (JObj kvs) ''last_eval_ssim'' = JFloat y"
    by (auto simp: metrics_paired_def dest: is_float_cases)
  then have "field (JObj kvs) ''last_eval_ssim'' = Some (JFloat y)"
    using lookup_not_null [of "JObj kvs" "''last_eval_ssim''"] by simp
  with p x show ?thesis
    by (simp add: metrics_segment_floats)
qed

section \<open>Rendering a valid snapshot\<close>

lemma valid_required:
  assumes "valid_snapshot s"
  shows "required is_count s ''current_iteration''"
    and "required is_positive s ''total_iterations''"
    and "required is_float s ''progress_percentage''"
    and "required is_duration s ''elapsed_time_seconds''"
    and "required is_duration s ''estimated_remaining_seconds''"
    and "required is_count s ''current_splat_count''"
    and "required is_str s ''status''"
    and "optional is_float s ''last_eval_psnr''"
  using assms unfolding valid_snapshot_def by simp_all

lemma status_line_valid:
  assumes "valid_snapshot s" and "metrics_paired s"
  shows "\<exists>t line. field s ''status'' = Some (JStr t) \<and> status_line B now s c = Inr (JStr t, line)"
proof -
  note v = valid_required [OF assms(1)]
  from required_field [OF v(3)] obtain px where
    p: "field s ''progress_percentage'' = Some (JFloat px)"
    by (auto dest: is_float_cases)
  from required_field [OF v(4)] obtain m1 e1 where
    el: "field s ''elapsed_time_seconds'' = Some (JFloat (Fin m1 e1))"
    by (auto dest: is_duration_cases)
  from required_field [OF v(5)] obtain m2 e2 where
    re: "field s ''estimated_remaining_seconds'' = Some (JFloat (Fin m2 e2))"
    by (auto dest: is_duration_cases)
  from required_field [OF v(6)] obtain n where
    sp: "field s ''current_splat_count'' = Some (JInt n)"
    by (auto dest: is_count_cases)
  from required_field [OF v(7)] obtain t where
    st: "field s ''status'' = Some (JStr t)"
    by (auto dest: is_str_cases)
  from required_field [OF v(2)] obtain tot where
    tot: "field s ''total_iterations'' = Some tot"
    by auto
  from p obtain kvs where s: "s = JObj kvs"
    by (blast dest: field_object)
  from v(8) assms(2) obtain ms where ms: "metrics_segment s = Inr ms"
    unfolding s by (blast dest: metrics_segment_valid)
  have ex: "\<exists>x. export_segment B s = Inr x"
    unfolding s by (simp add: export_segment_object)
  then obtain ex where ex: "export_segment B s = Inr ex" ..
  have "\<exists>line. status_line B now s c = Inr (JStr t, line)"
    unfolding status_line_def
    by (simp add: getitem_field [OF p] getitem_field [OF el] getitem_field [OF re]
        getitem_field [OF sp] getitem_field [OF st] getitem_field [OF tot]
        format_duration_float ms ex)
  with st show ?thesis by simp
qed

section \<open>One pass on a parsed snapshot\<close>

lemma poll_parsed:
  "poll B i now m (Parsed s) =
     (case poll_body B now m s of
        (m1, Continue) \<Rightarrow> (m1, Next)
      | (m1, Break) \<Rightarrow> (m1, Stop)
      | (m1, Fallthrough) \<Rightarrow> sleep_then_next i m1
      | (m1, Raise e) \<Rightarrow>
          (case handler m1 e of
             Some m2 \<Rightarrow> sleep_then_next i m2
           | None \<Rightarrow> (m1, Uncaught e)))"
  by (simp add: poll_def try_body_def)

lemma sleep_then_next_ok: "sleep i = Inr () \<Longrightarrow> sleep_then_next i m = (m, Next)"
  by (simp add: sleep_then_next_def)

lemma fst_sleep_then_next [simp]: "fst (sleep_then_next i m) = m"
  by (simp add: sleep_then_next_def split: sum.splits)

lemma poll_body_unchanged:
  assumes "field s ''current_iteration'' = Some c" and "py_eq c (last_iteration m)"
  shows "poll_body B now m s = (m, Fallthrough)"
  using assms by (simp add: poll_body_def getitem_field)

lemma poll_body_changed:
  assumes "field s ''current_iteration'' = Some c" and "\<not> py_eq c (last_iteration m)"
    and "status_line B now s c = Inr (ts, line)"
  shows "poll_body B now m s = check_completed B (print line (m\<lparr>last_iteration := c\<rparr>)) s ts"
  using assms by (simp add: poll_body_def getitem_field)

lemma poll_body_failed:
  assumes "field s ''current_iteration'' = Some c" and "\<not> py_eq c (last_iteration m)"
    and "status_line B now s c = Inl e"
  shows "poll_body B now m s = (m\<lparr>last_iteration := c\<rparr>, Raise e)"
  using assms by (simp add: poll_body_def getitem_field)

lemma check_completed_other:
  assumes "t \<noteq> ''completed''" and "t \<noteq> ''error''"
  shows "check_completed B m s (JStr t) = (m, Fallthrough)"
  using assms by (simp add: check_completed_def)

lemma check_completed_error:
  "check_completed B m s (JStr ''error'') = (print failed_notice m, Break)"
  by (simp add: check_completed_def)

lemma check_completed_no_file:
  assumes "\<not> truthy (lookup (JObj kvs) ''current_export_file'')"
  shows "check_completed B m (JObj kvs) (JStr ''completed'') = (print completed_notice m, Break)"
  using assms by (simp add: check_completed_def dict_get_object)

lemma check_completed_file:
  assumes "truthy (lookup (JObj kvs) ''current_export_file'')"
    and "field (JObj kvs) ''export_path'' = Some p"
  shows "check_completed B m (JObj kvs) (JStr ''completed'') =
           (print (''Final output: '' @ py_str B p @ ''/'' @
                     py_str B (lookup (JObj kvs) ''current_export_file''))
              (print completed_notice m), Break)"
proof -
  from assms(1) have "lookup (JObj kvs) ''current_export_file'' \<noteq> JNull"
    by auto
  then have "getitem (JObj kvs) ''current_export_file'' =
      Inr (lookup (JObj kvs) ''current_export_file'')"
    by (simp add: lookup_not_null getitem_field)
  with assms show ?thesis
    by (simp add: check_completed_def dict_get_object getitem_field)
qed

lemma check_completed_no_path:
  assumes "truthy (lookup (JObj kvs) ''current_export_file'')"
    and "field (JObj kvs) ''export_path'' = None"
  shows "check_completed B m (JObj kvs) (JStr ''completed'') =
           (print completed_notice m, Raise (KeyError ''export_path''))"
  using assms by (simp add: check_completed_def dict_get_object getitem_absent)

lemma print_simps [simp]:
  "stdout (print t m) = stdout m @ [t]" "last_iteration (print t m) = last_iteration m"
  by (simp_all add: print_def)

section \<open>Durations\<close>

lemma denom_positive: "0 < denom e"
  by (simp add: denom_def)

lemma at_least_iff: "v \<noteq> NaN \<Longrightarrow> at_least v c = (\<not> float_less v c)"
  by (cases v) (auto simp: at_least_def float_less_def)

lemma non_negative_not_nan: "non_negative v \<Longrightarrow> v \<noteq> NaN"
  by (auto simp: non_negative_def at_least_def)

lemma float_less_minute_hour: "float_less v 60 \<Longrightarrow> float_less v 3600"
proof (cases v)
  case (Fin m e)
  assume "float_less v 60"
  with Fin have "numer m e < 60 * denom e"
    by (simp add: float_less_def)
  moreover have "0 < denom e"
    by (rule denom_positive)
  ultimately have "numer m e < 3600 * denom e"
    by linarith
  with Fin show ?thesis
    by (simp add: float_less_def)
qed (simp_all add: float_less_def)

lemma nearest_to_59_9: "float_of_ratio 599 10 = Inr (Fin 8430175552484147 (- 47))"
  by (simp add: float_ev)

lemma duration_59_9: "format_duration (JFloat (Fin 8430175552484147 (- 47))) = Inr ''59.9s''"
  by (simp add: float_ev format_ev)

lemma duration_60: "format_duration (JFloat (Fin 60 0)) = Inr ''1.0m''"
  by (simp add: float_ev format_ev)

lemma duration_3600: "format_duration (JFloat (Fin 3600 0)) = Inr ''1.0h''"
  by (simp add: float_ev format_ev)

text \<open>
  Claim C5. \<^verbatim>\<open>format_duration\<close> is a total function on the non-negative floats: it raises
  nothing, and its text follows the rule of the specification: below 60 the value to one
  decimal and \<^verbatim>\<open>s\<close>, from 60 and below 3600 the value divided by 60 and \<^verbatim>\<open>m\<close>, from 3600
  the value divided by 3600 and \<^verbatim>\<open>h\<close>; one of the three cases always applies. In particular
  59.9 (the float \<open>8430175552484147 / 2 ^ 47\<close>, see \<open>nearest_to_59_9\<close>) gives \<^verbatim>\<open>59.9s\<close>, 60.0
  gives \<^verbatim>\<open>1.0m\<close> and 3600.0 gives \<^verbatim>\<open>1.0h\<close>.
\<close>

theorem format_duration_rule:
  "(non_negative v \<longrightarrow>
      (\<exists>t. format_duration (JFloat v) = Inr t \<and> duration_rule v t) \<and>
      (float_less v 60 \<or> at_least v 60 \<and> float_less v 3600 \<or> at_least v 3600)) \<and>
   format_duration (JFloat (Fin 8430175552484147 (- 47))) = Inr ''59.9s'' \<and>
   format_duration (JFloat (Fin 60 0)) = Inr ''1.0m'' \<and>
   format_duration (JFloat (Fin 3600 0)) = Inr ''1.0h''"
proof -
  have "duration_rule v
          (if float_less v 60 then float_fixed 1 v @ ''s''
           else if float_less v 3600 then float_fixed 1 (float_div v 60) @ ''m''
           else float_fixed 1 (float_div v 3600) @ ''h'')"
    if "non_negative v"
    using that float_less_minute_hour [of v]
    by (auto simp: duration_rule_def at_least_iff non_negative_not_nan)
  moreover have "float_less v 60 \<or> at_least v 60 \<and> float_less v 3600 \<or> at_least v 3600"
    if "non_negative v"
    using that by (auto simp: at_least_iff non_negative_not_nan)
  ultimately have "non_negative v \<longrightarrow>
      (\<exists>t. format_duration (JFloat v) = Inr t \<and> duration_rule v t) \<and>
      (float_less v 60 \<or> at_least v 60 \<and> float_less v 3600 \<or> at_least v 3600)"
    by (simp add: format_duration_float)
  with duration_59_9 duration_60 duration_3600 show ?thesis
    by (intro conjI)
qed

theorem format_duration_rule_witness:
  "non_negative (Fin 121 (- 1)) \<and>
   format_duration (JFloat (Fin 121 (- 1))) = Inr ''1.0m'' \<and>
   duration_rule (Fin 121 (- 1)) ''1.0m'' \<and>
   at_least (Fin 121 (- 1)) 60 \<and> float_less (Fin 121 (- 1)) 3600"
proof -
  have n: "non_negative (Fin 121 (- 1))"
    by (simp add: non_negative_def at_least_def numer_def denom_def)
  have d: "format_duration (JFloat (Fin 121 (- 1))) = Inr ''1.0m''"
    by (simp add: float_ev format_ev)
  have r: "at_least (Fin 121 (- 1)) 60 \<and> float_less (Fin 121 (- 1)) 3600"
    by (simp add: at_least_def float_less_def numer_def denom_def)
  from format_duration_rule [of "Fin 121 (- 1)"] n d r show ?thesis
    by simp
qed

section \<open>The scenario\<close>

lemma scenario_fields:
  "getitem scenario ''current_iteration'' = Inr (JInt 100)"
  "getitem scenario ''total_iterations'' = Inr (JInt 1000)"
  "getitem scenario ''progress_percentage'' = Inr (JFloat (Fin 10 0))"
  "getitem scenario ''elapsed_time_seconds'' = Inr (JFloat (Fin 121 (- 1)))"
  "getitem scenario ''estimated_remaining_seconds'' = Inr (JFloat (Fin 1089 (- 1)))"
  "getitem scenario ''current_splat_count'' = Inr (JInt 5000)"
  "getitem scenario ''status'' = Inr (JStr ''training'')"
  "dict_get scenario ''last_eval_psnr'' = Inr JNull"
  "dict_get scenario ''current_export_file'' = Inr JNull"
  by (simp_all add: scenario_def getitem_def dict_get_def)

lemma scenario_pieces:
  "format_duration (JFloat (Fin 121 (- 1))) = Inr ''1.0m''"
  "format_duration (JFloat (Fin 1089 (- 1))) = Inr ''9.1m''"
  "float_fixed 1 (Fin 10 0) = ''10.0''"
  "comma_int 5000 = ''5,000''"
  "str_int 100 = ''100''"
  "str_int 1000 = ''1000''"
  by (simp_all add: float_ev format_ev)

lemma scenario_status_line:
  "status_line B now scenario (JInt 100) = Inr (JStr ''training'', scenario_line now ''training'')"
  by (simp add: status_line_def scenario_fields scenario_pieces metrics_segment_def
      export_segment_def py_str_def base_line_def scenario_line_def del: One_nat_def)

text \<open>
  Claim C8. From the initial state (\<^verbatim>\<open>last_iteration\<close> at \<open>- 1\<close>, nothing printed), a pass
  that reads the scenario's snapshot prints exactly one line, which is
  \<^verbatim>\<open>[now] Iter 100/1000 (10.0%) | Elapsed: 1.0m | Remaining: 9.1m | Splats: 5,000 | Status: training\<close>
  with nothing after the status (no metrics segment, no export segment), sets
  \<^verbatim>\<open>last_iteration\<close> to 100 and goes on to the next pass.
\<close>

theorem scenario_first_poll:
  "poll B one_second now fresh (Parsed scenario) =
     (\<lparr>last_iteration = JInt 100, stdout = [scenario_line now ''training'']\<rparr>, Next)"
  by (simp add: poll_parsed poll_body_def scenario_fields fresh_def scenario_status_line
      check_completed_def sleep_then_next_def print_def)

theorem scenario_first_poll_witness:
  "poll plain one_second ''09:34:56'' fresh (Parsed scenario) =
     (\<lparr>last_iteration = JInt 100,
       stdout = [''[09:34:56] Iter 100/1000 (10.0%) | Elapsed: 1.0m | Remaining: 9.1m | '' @
                 ''Splats: 5,000 | Status: training'']\<rparr>, Next)"
  using scenario_first_poll [of plain "''09:34:56''"] by (simp add: scenario_line_def)

section \<open>A pass that renders the status line\<close>

lemma last_iteration_check_completed [simp]:
  "last_iteration (fst (check_completed B m s ts)) = last_iteration m"
  by (simp add: check_completed_def Let_def split: sum.splits)

lemma handler_last_iteration:
  "handler m e = Some m2 \<Longrightarrow> last_iteration m2 = last_iteration m"
  by (cases e) (auto simp: handler_def)

lemma handler_key_error [simp]:
  "handler m (KeyError k) = Some (print (missing_key_notice k) m)"
  by (simp add: handler_def missing_key_notice_def)

lemma poll_keeps_body_iteration:
  "last_iteration (fst (poll B i now m (Parsed s))) = last_iteration (fst (poll_body B now m s))"
  by (auto simp: poll_parsed split: prod.splits ctl.splits option.splits
      dest: handler_last_iteration)

lemma poll_updates_last_iteration:
  assumes "field s ''current_iteration'' = Some c" and "\<not> py_eq c (last_iteration m)"
  shows "last_iteration (fst (poll B i now m (Parsed s))) = c"
proof (cases "status_line B now s c")
  case (Inl e)
  with assms have "poll_body B now m s = (m\<lparr>last_iteration := c\<rparr>, Raise e)"
    by (rule poll_body_failed)
  then show ?thesis
    by (simp add: poll_keeps_body_iteration)
next
  case (Inr r)
  obtain ts line where "r = (ts, line)"
    by (cases r)
  with Inr assms have
    "poll_body B now m s = check_completed B (print line (m\<lparr>last_iteration := c\<rparr>)) s ts"
    by (simp add: poll_body_changed)
  then show ?thesis
    by (simp add: poll_keeps_body_iteration)
qed

lemma poll_rendered_other:
  assumes "field s ''current_iteration'' = Some c" and "\<not> py_eq c (last_iteration m)"
    and "status_line B now s c = Inr (JStr t, line)"
    and "t \<noteq> ''completed''" and "t \<noteq> ''error''"
  shows "poll B i now m (Parsed s) = sleep_then_next i (print line (m\<lparr>last_iteration := c\<rparr>))"
  using assms by (simp add: poll_parsed poll_body_changed check_completed_other)

lemma poll_rendered_error:
  assumes "field s ''current_iteration'' = Some c" and "\<not> py_eq c (last_iteration m)"
    and "status_line B now s c = Inr (JStr ''error'', line)"
  shows "poll B i now m (Parsed s) =
           (print failed_notice (print line (m\<lparr>last_iteration := c\<rparr>)), Stop)"
  using assms by (simp add: poll_parsed poll_body_changed check_completed_error)

lemma poll_rendered_completed_no_file:
  assumes "field s ''current_iteration'' = Some c" and "\<not> py_eq c (last_iteration m)"
    and "status_line B now s c = Inr (JStr ''completed'', line)"
    and "\<not> truthy (lookup s ''current_export_file'')"
  shows "poll B i now m (Parsed s) =
           (print completed_notice (print line (m\<lparr>last_iteration := c\<rparr>)), Stop)"
proof -
  from assms(1) obtain kvs where "s = JObj kvs"
    by (blast dest: field_object)
  with assms show ?thesis
    by (simp add: poll_parsed poll_body_changed check_completed_no_file)
qed

lemma poll_rendered_completed_file:
  assumes "field s ''current_iteration'' = Some c" and "\<not> py_eq c (last_iteration m)"
    and "status_line B now s c = Inr (JStr ''completed'', line)"
    and "truthy (lookup s ''current_export_file'')"
    and "field s ''export_path'' = Some p"
  shows "poll B i now m (Parsed s) =
           (print (''Final output: '' @ py_str B p @ ''/'' @
                     py_str B (lookup s ''current_export_file''))
              (print completed_notice (print line (m\<lparr>last_iteration := c\<rparr>))), Stop)"
proof -
  from assms(1) obtain kvs where "s = JObj kvs"
    by (blast dest: field_object)
  with assms show ?thesis
    by (simp add: poll_parsed poll_body_changed check_completed_file)
qed

lemma poll_rendered_completed_no_path:
  assumes "field s ''current_iteration'' = Some c" and "\<not> py_eq c (last_iteration m)"
    and "status_line B now s c = Inr (JStr ''completed'', line)"
    and "truthy (lookup s ''current_export_file'')"
    and "field s ''export_path'' = None"
  shows "poll B i now m (Parsed s) =
           sleep_then_next i
             (print (missing_key_notice ''export_path'')
                (print completed_notice (print line (m\<lparr>last_iteration := c\<rparr>))))"
proof -
  from assms(1) obtain kvs where "s = JObj kvs"
    by (blast dest: field_object)
  with assms show ?thesis
    by (simp add: poll_parsed poll_body_changed check_completed_no_path)
qed

lemma poll_unchanged:
  assumes "field s ''current_iteration'' = Some c" and "py_eq c (last_iteration m)"
  shows "poll B i now m (Parsed s) = sleep_then_next i m"
  using assms by (simp add: poll_parsed poll_body_unchanged)

text \<open>What a rendering pass prints after the status line.\<close>

lemma poll_rendered_stdout:
  assumes "field s ''current_iteration'' = Some c" and "\<not> py_eq c (last_iteration m)"
    and "status_line B now s c = Inr (JStr t, line)"
  shows "\<exists>rest. stdout (fst (poll B i now m (Parsed s))) = stdout m @ line # rest \<and>
           (rest = [] \<longleftrightarrow> t \<noteq> ''completed'' \<and> t \<noteq> ''error'') \<and>
           (t = ''completed'' \<longrightarrow> hd rest = completed_notice) \<and>
           (t = ''error'' \<longrightarrow> rest = [failed_notice])"
proof -
  consider (other) "t \<noteq> ''completed''" "t \<noteq> ''error''"
    | (failed) "t = ''error''"
    | (unnamed) "t = ''completed''" "\<not> truthy (lookup s ''current_export_file'')"
    | (located) p where "t = ''completed''" "truthy (lookup s ''current_export_file'')"
        "field s ''export_path'' = Some p"
    | (unlocated) "t = ''completed''" "truthy (lookup s ''current_export_file'')"
        "field s ''export_path'' = None"
    by (cases "field s ''export_path''") auto
  then show ?thesis
  proof cases
    case other
    with assms show ?thesis by (simp add: poll_rendered_other)
  next
    case failed
    with assms show ?thesis by (simp add: poll_rendered_error)
  next
    case unnamed
    with assms show ?thesis by (simp add: poll_rendered_completed_no_file)
  next
    case located
    with assms show ?thesis by (simp add: poll_rendered_completed_file)
  next
    case unlocated
    with assms show ?thesis by (simp add: poll_rendered_completed_no_path)
  qed
qed

section \<open>The concrete snapshots\<close>

lemma scenario_valid: "valid_snapshot scenario" "metrics_paired scenario"
  "field scenario ''current_iteration'' = Some (JInt 100)"
  by (simp_all add: valid_snapshot_def metrics_paired_def required_def optional_def lookup_def
      field_def scenario_def)

lemma scenario_with_valid:
  "valid_snapshot (scenario_with (JStr t) (JStr f) (JStr p))"
  "valid_snapshot (scenario_with (JStr t) JNull (JStr p))"
  "valid_snapshot (scenario_with (JStr t) (JStr f) JNull)"
  "metrics_paired (scenario_with ts file path)"
  "field (scenario_with ts file path) ''current_iteration'' = Some (JInt 100)"
  "field (scenario_with ts file path) ''status'' = Some ts"
  "field (scenario_with ts file path) ''export_path'' = Some path"
  "lookup (scenario_with ts file path) ''current_export_file'' = file"
  by (simp_all add: valid_snapshot_def metrics_paired_def required_def optional_def lookup_def
      field_def scenario_with_def)

lemma scenario_with_fields:
  "getitem (scenario_with ts file path) ''current_iteration'' = Inr (JInt 100)"
  "getitem (scenario_with ts file path) ''total_iterations'' = Inr (JInt 1000)"
  "getitem (scenario_with ts file path) ''progress_percentage'' = Inr (JFloat (Fin 10 0))"
  "getitem (scenario_with ts file path) ''elapsed_time_seconds'' = Inr (JFloat (Fin 121 (- 1)))"
  "getitem (scenario_with ts file path) ''estimated_remaining_seconds'' =
     Inr (JFloat (Fin 1089 (- 1)))"
  "getitem (scenario_with ts file path) ''current_splat_count'' = Inr (JInt 5000)"
  "getitem (scenario_with ts file path) ''status'' = Inr ts"
  "getitem (scenario_with ts file path) ''current_export_file'' = Inr file"
  "dict_get (scenario_with ts file path) ''last_eval_psnr'' = Inr JNull"
  "dict_get (scenario_with ts file path) ''current_export_file'' = Inr file"
  by (simp_all add: scenario_with_def getitem_def dict_get_def)

lemma truthy_str [simp]: "truthy (JStr t) = (t \<noteq> [])"
  by (simp add: truthy_def)

lemma py_str_simps [simp]:
  "py_str B (JStr t) = t" "py_str B JNull = ''None''" "py_str B (JInt n) = str_int n"
  by (simp_all add: py_str_def)

lemma scenario_with_status_line:
  "status_line B now (scenario_with (JStr t) JNull path) (JInt 100) =
     Inr (JStr t, scenario_line now t)"
  "f \<noteq> [] \<Longrightarrow> status_line B now (scenario_with (JStr t) (JStr f) path) (JInt 100) =
     Inr (JStr t, scenario_line now t @ '' | Last export: '' @ f)"
  by (simp_all add: status_line_def scenario_with_fields scenario_pieces metrics_segment_def
      export_segment_def base_line_def scenario_line_def del: One_nat_def)

section \<open>Change detection\<close>

text \<open>
  Claim C10, as stated, fails: a parsed snapshot that holds nothing but a smaller iteration
  makes the pass print the notice of the missing key and no status line; only the downward
  update takes place.
\<close>

theorem no_status_line_counterexample:
  "field (iteration_only 5) ''current_iteration'' = Some (JInt 5) \<and>
   last_iteration (seen 10) = JInt 10 \<and>
   status_line plain ''09:34:56'' (iteration_only 5) (JInt 5) =
     Inl (KeyError ''progress_percentage'') \<and>
   poll plain one_second ''09:34:56'' (seen 10) (Parsed (iteration_only 5)) =
     (\<lparr>last_iteration = JInt 5,
       stdout = [''Missing key in status file: '' @ [CHR 0x27] @ ''progress_percentage'' @
                 [CHR 0x27]]\<rparr>, Next)"
  by (simp add: iteration_only_def seen_def field_def poll_parsed poll_body_def status_line_def
      getitem_def handler_def key_repr_def sleep_then_next_def print_def)

text \<open>
  Claim C10, amended. Change detection is inequality, not a monotone comparison: for every
  parsed snapshot whose \<^verbatim>\<open>current_iteration\<close> is an int strictly less than the int in
  \<^verbatim>\<open>last_iteration\<close>, the pass sets \<^verbatim>\<open>last_iteration\<close> to the smaller value; and when the
  snapshot is valid, with its evaluation metrics set together, the pass prints the status
  line, first.
\<close>

theorem downward_update:
  assumes "field s ''current_iteration'' = Some (JInt n)"
    and "last_iteration m = JInt k" and "n < k"
  shows "last_iteration (fst (poll B i now m (Parsed s))) = JInt n \<and>
         (valid_snapshot s \<and> metrics_paired s \<longrightarrow>
            (\<exists>t line rest.
               status_line B now s (JInt n) = Inr (JStr t, line) \<and>
               stdout (fst (poll B i now m (Parsed s))) = stdout m @ line # rest))"
proof -
  from assms(2, 3) have changed: "\<not> py_eq (JInt n) (last_iteration m)"
    by simp
  with assms(1) have "last_iteration (fst (poll B i now m (Parsed s))) = JInt n"
    by (rule poll_updates_last_iteration)
  moreover have "\<exists>t line rest.
      status_line B now s (JInt n) = Inr (JStr t, line) \<and>
      stdout (fst (poll B i now m (Parsed s))) = stdout m @ line # rest"
    if "valid_snapshot s" and "metrics_paired s"
  proof -
    from status_line_valid [OF that] obtain t line where
      line: "status_line B now s (JInt n) = Inr (JStr t, line)"
      by blast
    from poll_rendered_stdout [OF assms(1) changed line] line show ?thesis
      by blast
  qed
  ultimately show ?thesis
    by blast
qed

theorem downward_update_witness:
  "field scenario ''current_iteration'' = Some (JInt 100) \<and>
   last_iteration (seen 200) = JInt 200 \<and> (100 :: int) < 200 \<and>
   valid_snapshot scenario \<and> metrics_paired scenario \<and>
   last_iteration (fst (poll plain one_second ''09:34:56'' (seen 200) (Parsed scenario))) =
     JInt 100 \<and>
   (\<exists>rest. stdout (fst (poll plain one_second ''09:34:56'' (seen 200) (Parsed scenario))) =
      scenario_line ''09:34:56'' ''training'' # rest)"
proof -
  have l: "last_iteration (seen 200) = JInt 200"
    by (simp add: seen_def)
  from downward_update [OF scenario_valid(3) l, of plain one_second "''09:34:56''"]
    scenario_valid(1, 2)
  have "last_iteration (fst (poll plain one_second ''09:34:56'' (seen 200) (Parsed scenario))) =
      JInt 100"
    and "\<exists>t line rest.
      status_line plain ''09:34:56'' scenario (JInt 100) = Inr (JStr t, line) \<and>
      stdout (fst (poll plain one_second ''09:34:56'' (seen 200) (Parsed scenario))) =
        stdout (seen 200) @ line # rest"
    by simp_all
  then show ?thesis
    by (auto simp: scenario_valid l scenario_status_line seen_def)
qed

section \<open>Terminal statuses\<close>

text \<open>
  Claim C1, as stated, fails: when the iteration is the one already seen, a snapshot that is
  read and parsed with the status \<^verbatim>\<open>completed\<close>, or \<^verbatim>\<open>error\<close>, makes the pass print nothing
  and go on to the next pass.
\<close>

theorem unchanged_terminal_counterexample:
  "field (scenario_with (JStr ''completed'') JNull (JStr ''./out'')) ''status'' =
     Some (JStr ''completed'') \<and>
   poll plain one_second ''09:34:56'' (seen 100)
     (Parsed (scenario_with (JStr ''completed'') JNull (JStr ''./out''))) = (seen 100, Next) \<and>
   field (scenario_with (JStr ''error'') JNull (JStr ''./out'')) ''status'' =
     Some (JStr ''error'') \<and>
   poll plain one_second ''09:34:56'' (seen 100)
     (Parsed (scenario_with (JStr ''error'') JNull (JStr ''./out''))) = (seen 100, Next)"
  by (simp add: poll_unchanged [where c = "JInt 100"] scenario_with_valid seen_def
      sleep_then_next_def)

text \<open>
  Claim C1, amended. For every pass that reads and parses a valid snapshot, with its
  evaluation metrics set together, whose \<^verbatim>\<open>current_iteration\<close> differs from
  \<^verbatim>\<open>last_iteration\<close>: if the status is \<^verbatim>\<open>completed\<close> the pass prints the completion notice
  right after the status line, and the loop ends when the named export comes with the key
  \<^verbatim>\<open>export_path\<close>; if the status is \<^verbatim>\<open>error\<close> the pass prints the failure notice right
  after the status line and the loop ends.
\<close>

theorem terminal_status:
  assumes "valid_snapshot s" and "metrics_paired s"
    and "field s ''current_iteration'' = Some c" and "\<not> py_eq c (last_iteration m)"
  shows "(field s ''status'' = Some (JStr ''completed'') \<longrightarrow>
            (\<exists>line rest. stdout (fst (poll B i now m (Parsed s))) =
               stdout m @ line # completed_notice # rest) \<and>
            (export_located s \<longrightarrow> snd (poll B i now m (Parsed s)) = Stop)) \<and>
         (field s ''status'' = Some (JStr ''error'') \<longrightarrow>
            (\<exists>line. stdout (fst (poll B i now m (Parsed s))) =
               stdout m @ [line, failed_notice]) \<and>
            snd (poll B i now m (Parsed s)) = Stop)"
proof -
  from status_line_valid [OF assms(1, 2)] obtain t line where
    t: "field s ''status'' = Some (JStr t)" and
    line: "status_line B now s c = Inr (JStr t, line)"
    by blast
  note r = assms(3, 4)
  have failed: "stdout (fst (poll B i now m (Parsed s))) = stdout m @ [line, failed_notice] \<and>
      snd (poll B i now m (Parsed s)) = Stop"
    if "t = ''error''"
    using that line by (simp add: poll_rendered_error [OF r])
  have printed: "\<exists>rest. stdout (fst (poll B i now m (Parsed s))) =
      stdout m @ line # completed_notice # rest"
    if c: "t = ''completed''"
  proof (cases "truthy (lookup s ''current_export_file'')")
    case False
    with c line show ?thesis
      by (simp add: poll_rendered_completed_no_file [OF r])
  next
    case True
    show ?thesis
    proof (cases "field s ''export_path''")
      case None
      with True c line show ?thesis
        by (simp add: poll_rendered_completed_no_path [OF r])
    next
      case (Some p)
      with True c line show ?thesis
        by (simp add: poll_rendered_completed_file [OF r])
    qed
  qed
  have stopped: "snd (poll B i now m (Parsed s)) = Stop"
    if c: "t = ''completed''" and "export_located s"
  proof (cases "truthy (lookup s ''current_export_file'')")
    case False
    with c line show ?thesis
      by (simp add: poll_rendered_completed_no_file [OF r])
  next
    case True
    with that(2) obtain p where "field s ''export_path'' = Some p"
      by (auto simp: export_located_def)
    with True c line show ?thesis
      by (simp add: poll_rendered_completed_file [OF r])
  qed
  from t failed printed stopped show ?thesis
    by auto
qed

theorem terminal_status_witness:
  "valid_snapshot scenario_completed \<and> metrics_paired scenario_completed \<and>
   field scenario_completed ''current_iteration'' = Some (JInt 100) \<and>
   \<not> py_eq (JInt 100) (last_iteration fresh) \<and>
   field scenario_completed ''status'' = Some (JStr ''completed'') \<and>
   export_located scenario_completed \<and>
   (\<exists>line rest. stdout (fst (poll plain one_second ''09:34:56'' fresh (Parsed scenario_completed))) =
      line # completed_notice # rest) \<and>
   snd (poll plain one_second ''09:34:56'' fresh (Parsed scenario_completed)) = Stop \<and>
   valid_snapshot (scenario_with (JStr ''error'') JNull (JStr ''./out'')) \<and>
   field (scenario_with (JStr ''error'') JNull (JStr ''./out'')) ''status'' =
     Some (JStr ''error'') \<and>
   (\<exists>line. stdout (fst (poll plain one_second ''09:34:56'' fresh
        (Parsed (scenario_with (JStr ''error'') JNull (JStr ''./out''))))) =
      [line, failed_notice]) \<and>
   snd (poll plain one_second ''09:34:56'' fresh
        (Parsed (scenario_with (JStr ''error'') JNull (JStr ''./out'')))) = Stop"
proof -
  have n: "\<not> py_eq (JInt 100) (last_iteration fresh)"
    by (simp add: fresh_def)
  have v: "valid_snapshot scenario_completed" "metrics_paired scenario_completed"
    "field scenario_completed ''current_iteration'' = Some (JInt 100)"
    "field scenario_completed ''status'' = Some (JStr ''completed'')"
    "export_located scenario_completed"
    by (simp_all add: scenario_completed_def scenario_with_valid export_located_def)
  have e: "valid_snapshot (scenario_with (JStr ''error'') JNull (JStr ''./out''))"
    "metrics_paired (scenario_with (JStr ''error'') JNull (JStr ''./out''))"
    "field (scenario_with (JStr ''error'') JNull (JStr ''./out'')) ''current_iteration'' =
       Some (JInt 100)"
    "field (scenario_with (JStr ''error'') JNull (JStr ''./out'')) ''status'' =
       Some (JStr ''error'')"
    by (simp_all add: scenario_with_valid)
  from terminal_status [OF v(1, 2, 3) n, of plain one_second "''09:34:56''"] v(4, 5)
  have c: "(\<exists>line rest. stdout (fst (poll plain one_second ''09:34:56'' fresh
        (Parsed scenario_completed))) = stdout fresh @ line # completed_notice # rest) \<and>
      snd (poll plain one_second ''09:34:56'' fresh (Parsed scenario_completed)) = Stop"
    by blast
  from terminal_status [OF e(1, 2, 3) n, of plain one_second "''09:34:56''"] e(4)
  have f: "(\<exists>line. stdout (fst (poll plain one_second ''09:34:56'' fresh
        (Parsed (scenario_with (JStr ''error'') JNull (JStr ''./out''))))) =
        stdout fresh @ [line, failed_notice]) \<and>
      snd (poll plain one_second ''09:34:56'' fresh
        (Parsed (scenario_with (JStr ''error'') JNull (JStr ''./out'')))) = Stop"
    by blast
  have "stdout fresh = []"
    by (simp add: fresh_def)
  with c f n v e show ?thesis
    by simp
qed

section \<open>The completion notice\<close>

text \<open>
  Claim C7, as stated, fails twice. The loop does not end in all cases: the scenario's
  completed snapshot, read when iteration 100 is the one already seen, prints nothing and
  the loop goes on. And the path is printed when only the file is present: with
  \<^verbatim>\<open>export_path\<close> null the notice reads \<^verbatim>\<open>Final output: None/final.ply\<close>.
\<close>

theorem completion_counterexample:
  "field scenario_completed ''status'' = Some (JStr ''completed'') \<and>
   poll plain one_second ''09:34:56'' (seen 100) (Parsed scenario_completed) =
     (seen 100, Next) \<and>
   lookup (scenario_with (JStr ''completed'') (JStr ''final.ply'') JNull) ''export_path'' =
     JNull \<and>
   poll plain one_second ''09:34:56'' fresh
     (Parsed (scenario_with (JStr ''completed'') (JStr ''final.ply'') JNull)) =
     (\<lparr>last_iteration = JInt 100,
       stdout = [scenario_line ''09:34:56'' ''completed'' @ '' | Last export: final.ply'',
                 completed_notice, ''Final output: None/final.ply'']\<rparr>, Stop)"
proof -
  have "poll plain one_second ''09:34:56'' (seen 100) (Parsed scenario_completed) =
      (seen 100, Next)"
    by (simp add: poll_unchanged [where c = "JInt 100"] scenario_completed_def
        scenario_with_valid seen_def sleep_then_next_def)
  moreover have "poll plain one_second ''09:34:56'' fresh
      (Parsed (scenario_with (JStr ''completed'') (JStr ''final.ply'') JNull)) =
      (print (''Final output: '' @ py_str plain JNull @ ''/'' @
                py_str plain (lookup (scenario_with (JStr ''completed'') (JStr ''final.ply'') JNull)
                  ''current_export_file''))
         (print completed_notice
            (print (scenario_line ''09:34:56'' ''completed'' @ '' | Last export: final.ply'')
               (fresh\<lparr>last_iteration := JInt 100\<rparr>))), Stop)"
    by (rule poll_rendered_completed_file)
       (simp_all add: scenario_with_valid scenario_with_status_line fresh_def)
  moreover have "lookup (scenario_with (JStr ''completed'') (JStr ''final.ply'') JNull)
      ''export_path'' = JNull"
    by (simp add: lookup_field scenario_with_valid)
  ultimately show ?thesis
    by (simp add: scenario_completed_def scenario_with_valid fresh_def print_def)
qed

text \<open>
  Claim C7, amended. When a valid parsed snapshot, with its evaluation metrics set together,
  has the status \<^verbatim>\<open>completed\<close> and an iteration that differs from \<^verbatim>\<open>last_iteration\<close>, the pass
  prints the completion notice after the status line; it prints
  \<^verbatim>\<open>Final output: <export_path>/<current_export_file>\<close> after that exactly when
  \<^verbatim>\<open>current_export_file\<close> is set (neither null nor empty); and, the key \<^verbatim>\<open>export_path\<close> being
  there whenever the file is set, the loop ends. In the scenario with
  \<^verbatim>\<open>current_export_file\<close> \<^verbatim>\<open>final.ply\<close> and \<^verbatim>\<open>export_path\<close> \<^verbatim>\<open>./out\<close> the notice names
  \<^verbatim>\<open>./out/final.ply\<close> and the loop ends.
\<close>

theorem completion_notice:
  "(valid_snapshot s \<and> metrics_paired s \<and> field s ''current_iteration'' = Some c \<and>
    \<not> py_eq c (last_iteration m) \<and> field s ''status'' = Some (JStr ''completed'') \<and>
    export_located s \<longrightarrow>
      (\<exists>line. stdout (fst (poll B i now m (Parsed s))) =
         stdout m @ [line, completed_notice] @
           (if truthy (lookup s ''current_export_file'')
            then [''Final output: '' @ py_str B (lookup s ''export_path'') @ ''/'' @
                  py_str B (lookup s ''current_export_file'')]
            else [])) \<and>
      snd (poll B i now m (Parsed s)) = Stop) \<and>
   poll B i now fresh (Parsed scenario_completed) =
     (\<lparr>last_iteration = JInt 100,
       stdout = [scenario_line now ''completed'' @ '' | Last export: final.ply'',
                 completed_notice, ''Final output: ./out/final.ply'']\<rparr>, Stop)"
proof (intro conjI impI)
  assume a: "valid_snapshot s \<and> metrics_paired s \<and> field s ''current_iteration'' = Some c \<and>
    \<not> py_eq c (last_iteration m) \<and> field s ''status'' = Some (JStr ''completed'') \<and>
    export_located s"
  then have r: "field s ''current_iteration'' = Some c" "\<not> py_eq c (last_iteration m)"
    by simp_all
  from a status_line_valid [of s B now c] obtain line where
    line: "status_line B now s c = Inr (JStr ''completed'', line)"
    by auto
  have both: "stdout (fst (poll B i now m (Parsed s))) =
      stdout m @ [line, completed_notice] @
        (if truthy (lookup s ''current_export_file'')
         then [''Final output: '' @ py_str B (lookup s ''export_path'') @ ''/'' @
               py_str B (lookup s ''current_export_file'')]
         else []) \<and>
      snd (poll B i now m (Parsed s)) = Stop"
  proof (cases "truthy (lookup s ''current_export_file'')")
    case False
    with line show ?thesis
      by (simp add: poll_rendered_completed_no_file [OF r])
  next
    case True
    with a obtain p where p: "field s ''export_path'' = Some p"
      by (auto simp: export_located_def)
    with True line show ?thesis
      by (simp add: poll_rendered_completed_file [OF r] lookup_field)
  qed
  then show "\<exists>line. stdout (fst (poll B i now m (Parsed s))) =
      stdout m @ [line, completed_notice] @
        (if truthy (lookup s ''current_export_file'')
         then [''Final output: '' @ py_str B (lookup s ''export_path'') @ ''/'' @
               py_str B (lookup s ''current_export_file'')]
         else [])"
    by blast
  from both show "snd (poll B i now m (Parsed s)) = Stop"
    by simp
next
  have "poll B i now fresh (Parsed scenario_completed) =
      (print (''Final output: '' @ py_str B (JStr ''./out'') @ ''/'' @
                py_str B (lookup scenario_completed ''current_export_file''))
         (print completed_notice
            (print (scenario_line now ''completed'' @ '' | Last export: final.ply'')
               (fresh\<lparr>last_iteration := JInt 100\<rparr>))), Stop)"
    unfolding scenario_completed_def
    by (rule poll_rendered_completed_file)
       (simp_all add: scenario_with_valid scenario_with_status_line fresh_def)
  then show "poll B i now fresh (Parsed scenario_completed) =
     (\<lparr>last_iteration = JInt 100,
       stdout = [scenario_line now ''completed'' @ '' | Last export: final.ply'',
                 completed_notice, ''Final output: ./out/final.ply'']\<rparr>, Stop)"
    by (simp add: scenario_completed_def scenario_with_valid fresh_def print_def)
qed

theorem completion_notice_witness:
  "valid_snapshot (scenario_with (JStr ''completed'') JNull (JStr ''./out'')) \<and>
   metrics_paired (scenario_with (JStr ''completed'') JNull (JStr ''./out'')) \<and>
   field (scenario_with (JStr ''completed'') JNull (JStr ''./out'')) ''current_iteration'' =
     Some (JInt 100) \<and>
   \<not> py_eq (JInt 100) (last_iteration fresh) \<and>
   field (scenario_with (JStr ''completed'') JNull (JStr ''./out'')) ''status'' =
     Some (JStr ''completed'') \<and>
   export_located (scenario_with (JStr ''completed'') JNull (JStr ''./out'')) \<and>
   (\<exists>line. stdout (fst (poll plain one_second ''09:34:56'' fresh
        (Parsed (scenario_with (JStr ''completed'') JNull (JStr ''./out''))))) =
      [line, completed_notice]) \<and>
   snd (poll plain one_second ''09:34:56'' fresh
        (Parsed (scenario_with (JStr ''completed'') JNull (JStr ''./out'')))) = Stop \<and>
   poll plain one_second ''09:34:56'' fresh (Parsed scenario_completed) =
     (\<lparr>last_iteration = JInt 100,
       stdout = [scenario_line ''09:34:56'' ''completed'' @ '' | Last export: final.ply'',
                 completed_notice, ''Final output: ./out/final.ply'']\<rparr>, Stop)"
proof -
  let ?s = "scenario_with (JStr ''completed'') JNull (JStr ''./out'')"
  have h: "valid_snapshot ?s \<and> metrics_paired ?s \<and>
      field ?s ''current_iteration'' = Some (JInt 100) \<and>
      \<not> py_eq (JInt 100) (last_iteration fresh) \<and>
      field ?s ''status'' = Some (JStr ''completed'') \<and> export_located ?s"
    by (simp add: scenario_with_valid export_located_def fresh_def)
  note w = completion_notice [of ?s "JInt 100" fresh plain one_second "''09:34:56''"]
  from w h have "(\<exists>line. stdout (fst (poll plain one_second ''09:34:56'' fresh (Parsed ?s))) =
      stdout fresh @ [line, completed_notice] @
        (if truthy (lookup ?s ''current_export_file'')
         then [''Final output: '' @ py_str plain (lookup ?s ''export_path'') @ ''/'' @
               py_str plain (lookup ?s ''current_export_file'')]
         else [])) \<and>
      snd (poll plain one_second ''09:34:56'' fresh (Parsed ?s)) = Stop"
    by blast
  then have "(\<exists>line. stdout (fst (poll plain one_second ''09:34:56'' fresh (Parsed ?s))) =
      [line, completed_notice]) \<and>
      snd (poll plain one_second ''09:34:56'' fresh (Parsed ?s)) = Stop"
    by (simp add: scenario_with_valid fresh_def)
  with h w show ?thesis
    by simp
qed

section \<open>Passes that read no snapshot\<close>

lemma poll_absent:
  "poll B i now m Absent =
     (case sleep i of
        Inl e \<Rightarrow> (print ''Status file not found, waiting for training to start...'' m, Uncaught e)
      | Inr u \<Rightarrow> (print ''Status file not found, waiting for training to start...'' m, Next))"
  by (cases "sleep i") (simp_all add: poll_def try_body_def handler_sleep_error)

lemma poll_vanished:
  "poll B i now m Vanished = sleep_then_next i (print ''Status file disappeared, waiting...'' m)"
  by (simp add: poll_def try_body_def handler_def)

lemma poll_malformed:
  "poll B i now m Malformed = sleep_then_next i (print ''Status file corrupted, retrying...'' m)"
  by (simp add: poll_def try_body_def handler_def)

lemma poll_uncaught:
  "poll B i now m Unreadable = (m, Uncaught OSError)"
  "poll B i now m Undecodable = (m, Uncaught UnicodeDecodeError)"
  "poll B i now m TooDeep = (m, Uncaught RecursionError)"
  by (simp_all add: poll_def try_body_def handler_def)

section \<open>Anomalies\<close>

lemma status_line_without_progress:
  assumes "field (JObj kvs) ''progress_percentage'' = None"
  shows "status_line B now (JObj kvs) c = Inl (KeyError ''progress_percentage'')"
  using assms by (simp add: status_line_def getitem_absent)

lemma status_line_without_elapsed:
  assumes "field (JObj kvs) ''progress_percentage'' = Some p"
    and "field (JObj kvs) ''elapsed_time_seconds'' = None"
  shows "status_line B now (JObj kvs) c = Inl (KeyError ''elapsed_time_seconds'')"
  using assms by (simp add: status_line_def getitem_absent getitem_field)

lemma status_line_without_remaining:
  assumes "field (JObj kvs) ''progress_percentage'' = Some p"
    and "field (JObj kvs) ''elapsed_time_seconds'' = Some (JFloat x)"
    and "field (JObj kvs) ''estimated_remaining_seconds'' = None"
  shows "status_line B now (JObj kvs) c = Inl (KeyError ''estimated_remaining_seconds'')"
  using assms by (simp add: status_line_def getitem_absent getitem_field format_duration_float)

lemma status_line_without_splats:
  assumes "field (JObj kvs) ''progress_percentage'' = Some p"
    and "field (JObj kvs) ''elapsed_time_seconds'' = Some (JFloat x)"
    and "field (JObj kvs) ''estimated_remaining_seconds'' = Some (JFloat y)"
    and "field (JObj kvs) ''current_splat_count'' = None"
  shows "status_line B now (JObj kvs) c = Inl (KeyError ''current_splat_count'')"
  using assms by (simp add: status_line_def getitem_absent getitem_field format_duration_float)

lemma status_line_without_status:
  assumes "field (JObj kvs) ''progress_percentage'' = Some p"
    and "field (JObj kvs) ''elapsed_time_seconds'' = Some (JFloat x)"
    and "field (JObj kvs) ''estimated_remaining_seconds'' = Some (JFloat y)"
    and "field (JObj kvs) ''current_splat_count'' = Some n"
    and "field (JObj kvs) ''status'' = None"
  shows "status_line B now (JObj kvs) c = Inl (KeyError ''status'')"
  using assms by (simp add: status_line_def getitem_absent getitem_field format_duration_float)

lemma status_line_without_total:
  assumes "field (JObj kvs) ''progress_percentage'' = Some p"
    and "field (JObj kvs) ''elapsed_time_seconds'' = Some (JFloat x)"
    and "field (JObj kvs) ''estimated_remaining_seconds'' = Some (JFloat y)"
    and "field (JObj kvs) ''current_splat_count'' = Some n"
    and "field (JObj kvs) ''status'' = Some t"
    and "field (JObj kvs) ''total_iterations'' = None"
  shows "status_line B now (JObj kvs) c = Inl (KeyError ''total_iterations'')"
  using assms by (simp add: status_line_def getitem_absent getitem_field format_duration_float)

lemma float_if_present_cases:
  "float_if_present s k \<Longrightarrow> field s k = None \<or> (\<exists>x. field s k = Some (JFloat x))"
  by (auto simp: float_if_present_def split: option.splits dest: is_float_cases)

lemma status_line_first_missing:
  assumes "first_missing (JObj kvs) = Some k"
    and "float_if_present (JObj kvs) ''elapsed_time_seconds''"
    and "float_if_present (JObj kvs) ''estimated_remaining_seconds''"
  shows "status_line B now (JObj kvs) c = Inl (KeyError k)"
proof (cases "field (JObj kvs) ''progress_percentage''")
  case None
  with assms(1) show ?thesis
    by (simp add: first_missing_def render_keys_def status_line_without_progress)
next
  case p: (Some p)
  show ?thesis
  proof (cases "field (JObj kvs) ''elapsed_time_seconds''")
    case None
    with assms(1) p show ?thesis
      by (simp add: first_missing_def render_keys_def status_line_without_elapsed)
  next
    case (Some el)
    with float_if_present_cases [OF assms(2)] obtain x where
      x: "field (JObj kvs) ''elapsed_time_seconds'' = Some (JFloat x)"
      by auto
    show ?thesis
    proof (cases "field (JObj kvs) ''estimated_remaining_seconds''")
      case None
      with assms(1) p x show ?thesis
        by (simp add: first_missing_def render_keys_def status_line_without_remaining)
    next
      case (Some re)
      with float_if_present_cases [OF assms(3)] obtain y where
        y: "field (JObj kvs) ''estimated_remaining_seconds'' = Some (JFloat y)"
        by auto
      show ?thesis
      proof (cases "field (JObj kvs) ''current_splat_count''")
        case None
        with assms(1) p x y show ?thesis
          by (simp add: first_missing_def render_keys_def status_line_without_splats)
      next
        case n: (Some n)
        show ?thesis
        proof (cases "field (JObj kvs) ''status''")
          case None
          with assms(1) p x y n show ?thesis
            by (simp add: first_missing_def render_keys_def status_line_without_status)
        next
          case t: (Some t)
          show ?thesis
          proof (cases "field (JObj kvs) ''total_iterations''")
            case None
            with assms(1) p x y n t show ?thesis
              by (simp add: first_missing_def render_keys_def status_line_without_total)
          next
            case (Some tot)
            with assms(1) p x y n t show ?thesis
              by (simp add: first_missing_def render_keys_def)
          qed
        qed
      qed
    qed
  qed
qed

lemma poll_without_iteration:
  assumes "field (JObj kvs) ''current_iteration'' = None"
  shows "poll B i now m (Parsed (JObj kvs)) =
           sleep_then_next i (print (missing_key_notice ''current_iteration'') m)"
  using assms by (simp add: poll_parsed poll_body_def getitem_absent)

lemma poll_key_error:
  assumes "poll_body B now m s = (m1, Raise (KeyError k))"
  shows "poll B i now m (Parsed s) = sleep_then_next i (print (missing_key_notice k) m1)"
  using assms by (simp add: poll_parsed)

lemma poll_first_missing:
  assumes "sleep i = Inr ()"
    and "field (JObj kvs) ''current_iteration'' = Some c" and "\<not> py_eq c (last_iteration m)"
    and "first_missing (JObj kvs) = Some k"
    and "float_if_present (JObj kvs) ''elapsed_time_seconds''"
    and "float_if_present (JObj kvs) ''estimated_remaining_seconds''"
  shows "poll B i now m (Parsed (JObj kvs)) =
           (print (missing_key_notice k) (m\<lparr>last_iteration := c\<rparr>), Next)"
proof -
  from assms(4-6) have "status_line B now (JObj kvs) c = Inl (KeyError k)"
    by (rule status_line_first_missing)
  with assms(2, 3) have "poll_body B now m (JObj kvs) = (m\<lparr>last_iteration := c\<rparr>, Raise (KeyError k))"
    by (rule poll_body_failed)
  then show ?thesis
    by (simp add: poll_key_error sleep_then_next_ok [OF assms(1)])
qed

section \<open>Output only grows\<close>

lemma check_completed_extends:
  "\<exists>out. stdout (fst (check_completed B m s ts)) = stdout m @ out"
  by (simp add: check_completed_def Let_def split: sum.splits)

lemma poll_body_extends: "\<exists>out. stdout (fst (poll_body B now m s)) = stdout m @ out"
proof (cases "getitem s ''current_iteration''")
  case (Inl e)
  then show ?thesis
    by (simp add: poll_body_def)
next
  case (Inr c)
  show ?thesis
  proof (cases "py_eq c (last_iteration m)")
    case True
    with Inr show ?thesis
      by (simp add: poll_body_def)
  next
    case False
    show ?thesis
    proof (cases "status_line B now s c")
      case (Inl e)
      with Inr False show ?thesis
        by (simp add: poll_body_def)
    next
      case r: (Inr r)
      obtain ts line where "r = (ts, line)"
        by (cases r)
      with r Inr False have "poll_body B now m s =
          check_completed B (print line (m\<lparr>last_iteration := c\<rparr>)) s ts"
        by (simp add: poll_body_def)
      with check_completed_extends [of B "print line (m\<lparr>last_iteration := c\<rparr>)" s ts]
      show ?thesis
        by auto
    qed
  qed
qed

lemma handler_extends: "handler m e = Some m2 \<Longrightarrow> \<exists>out. stdout m2 = stdout m @ out"
  by (cases e) (auto simp: handler_def)

lemma poll_body_not_continue: "snd (poll_body B now m s) \<noteq> Continue"
  by (simp add: poll_body_def check_completed_def Let_def split: sum.splits prod.splits)

lemma poll_extends: "\<exists>out. stdout (fst (poll B i now m a)) = stdout m @ out"
proof (cases a)
  case Absent
  then show ?thesis
    by (simp add: poll_absent split: sum.splits)
next
  case (Parsed s)
  obtain m1 c where b: "poll_body B now m s = (m1, c)"
    by (cases "poll_body B now m s")
  with poll_body_extends [of B now m s] obtain out where m1: "stdout m1 = stdout m @ out"
    by auto
  show ?thesis
  proof (cases c)
    case (Raise e)
    show ?thesis
    proof (cases "handler m1 e")
      case None
      with Raise b m1 Parsed show ?thesis
        by (simp add: poll_parsed)
    next
      case (Some m2)
      from handler_extends [OF this] obtain out2 where "stdout m2 = stdout m1 @ out2" ..
      with Some Raise b m1 Parsed show ?thesis
        by (simp add: poll_parsed)
    qed
  qed (use b m1 Parsed in \<open>simp_all add: poll_parsed\<close>)
qed (simp_all add: poll_vanished poll_malformed poll_uncaught)

lemma run_extends: "\<exists>out. stdout (fst (run B i m obs)) = stdout m @ out"
proof (induction obs arbitrary: m)
  case Nil
  show ?case by simp
next
  case (Cons ob obs)
  show ?case
  proof (cases ob)
    case CtrlC
    then show ?thesis by simp
  next
    case (Tick now a)
    obtain m1 r where p: "poll B i now m a = (m1, r)"
      by (cases "poll B i now m a")
    with poll_extends [of B i now m a] obtain out where m1: "stdout m1 = stdout m @ out"
      by auto
    show ?thesis
    proof (cases r)
      case Next
      from Cons.IH [of m1] obtain out2 where "stdout (fst (run B i m1 obs)) = stdout m1 @ out2" ..
      with Next p m1 Tick show ?thesis
        by simp
    qed (use p m1 Tick in simp_all)
  qed
qed

section \<open>The interval\<close>

lemma fst_poll_interval: "fst (poll B i now m a) = fst (poll B j now m a)"
proof (cases a)
  case Absent
  then show ?thesis
    by (simp add: poll_absent split: sum.splits)
next
  case (Parsed s)
  then show ?thesis
    by (simp add: poll_parsed split: prod.splits ctl.splits option.splits)
qed (simp_all add: poll_vanished poll_malformed poll_uncaught)

lemma poll_interval_slept:
  assumes "sleep i = Inr ()" and "sleep j = Inr ()"
  shows "poll B i now m a = poll B j now m a"
proof (cases a)
  case Absent
  with assms show ?thesis
    by (simp add: poll_absent)
next
  case (Parsed s)
  with assms show ?thesis
    by (simp add: poll_parsed sleep_then_next_ok split: prod.splits ctl.splits option.splits)
qed (simp_all add: poll_vanished poll_malformed poll_uncaught sleep_then_next_ok assms)

lemma poll_interval_refused:
  assumes "sleep i \<noteq> Inr ()"
  shows "snd (poll B i now m a) \<noteq> Next"
proof (cases a)
  case Absent
  with assms show ?thesis
    by (cases "sleep i") (simp_all add: poll_absent)
next
  case (Parsed s)
  obtain m1 c where b: "poll_body B now m s = (m1, c)"
    by (cases "poll_body B now m s")
  with poll_body_not_continue [of B now m s] have "c \<noteq> Continue"
    by simp
  with b Parsed sleep_then_next_fails [OF assms] show ?thesis
    by (cases c) (simp_all add: poll_parsed split: option.splits)
qed (simp_all add: poll_vanished poll_malformed poll_uncaught sleep_then_next_fails assms)

lemma run_first_pass:
  "\<exists>out. stdout (fst (run B i m (Tick now a # obs))) = stdout (fst (poll B j now m a)) @ out"
proof -
  obtain m1 r where p: "poll B i now m a = (m1, r)"
    by (cases "poll B i now m a")
  have "fst (poll B j now m a) = fst (poll B i now m a)"
    by (rule fst_poll_interval)
  with p have m1: "fst (poll B j now m a) = m1"
    by simp
  show ?thesis
  proof (cases r)
    case Next
    from run_extends [of B i m1 obs] obtain out where
      "stdout (fst (run B i m1 obs)) = stdout m1 @ out" ..
    with Next p show ?thesis
      unfolding m1 by simp
  next
    case Stop
    with p show ?thesis
      unfolding m1 by simp
  next
    case (Uncaught e)
    with p show ?thesis
      unfolding m1 by simp
  qed
qed

section \<open>The evaluation metrics\<close>

lemma scenario_psnr_only_fields:
  "getitem scenario_psnr_only ''current_iteration'' = Inr (JInt 100)"
  "getitem scenario_psnr_only ''total_iterations'' = Inr (JInt 1000)"
  "getitem scenario_psnr_only ''progress_percentage'' = Inr (JFloat (Fin 10 0))"
  "getitem scenario_psnr_only ''elapsed_time_seconds'' = Inr (JFloat (Fin 121 (- 1)))"
  "getitem scenario_psnr_only ''estimated_remaining_seconds'' = Inr (JFloat (Fin 1089 (- 1)))"
  "getitem scenario_psnr_only ''current_splat_count'' = Inr (JInt 5000)"
  "getitem scenario_psnr_only ''status'' = Inr (JStr ''training'')"
  "getitem scenario_psnr_only ''last_eval_psnr'' = Inr (JFloat (Fin 25 0))"
  "getitem scenario_psnr_only ''last_eval_ssim'' = Inr JNull"
  "dict_get scenario_psnr_only ''last_eval_psnr'' = Inr (JFloat (Fin 25 0))"
  by (simp_all add: scenario_psnr_only_def getitem_def dict_get_def)

lemma scenario_psnr_only_valid:
  "valid_snapshot scenario_psnr_only"
  "field scenario_psnr_only ''current_iteration'' = Some (JInt 100)"
  "lookup scenario_psnr_only ''last_eval_psnr'' = JFloat (Fin 25 0)"
  "lookup scenario_psnr_only ''last_eval_ssim'' = JNull"
  by (simp_all add: valid_snapshot_def required_def optional_def lookup_def field_def
      scenario_psnr_only_def)

lemma scenario_psnr_only_metrics: "metrics_segment scenario_psnr_only = Inl TypeError"
  by (simp add: metrics_segment_def scenario_psnr_only_fields format_fixed_def)

lemma scenario_psnr_only_status_line:
  "status_line B now scenario_psnr_only (JInt 100) = Inl TypeError"
  by (simp add: status_line_def scenario_psnr_only_fields scenario_pieces format_duration_float
      scenario_psnr_only_metrics del: One_nat_def)

lemma scenario_psnr_only_poll:
  "poll B i now fresh (Parsed scenario_psnr_only) =
     (\<lparr>last_iteration = JInt 100, stdout = []\<rparr>, Uncaught TypeError)"
  by (simp add: poll_parsed poll_body_def scenario_psnr_only_fields
      scenario_psnr_only_status_line handler_def fresh_def)

text \<open>
  Claim C6 is what the comment of line 84 asks for (\<^verbatim>\<open>Add evaluation metrics if available\<close>),
  and the code does not do it. The claim has the metrics segment left out, and the line
  still rendered, when either metric is absent or null. Lines 85 to 88 test
  \<^verbatim>\<open>last_eval_psnr\<close> alone and then format \<^verbatim>\<open>last_eval_ssim\<close> as well. On the scenario's
  snapshot with a PSNR of 25.0 and a null SSIM, a valid snapshot, the format \<^verbatim>\<open>.3f\<close> of
  \<^verbatim>\<open>None\<close> raises TypeError: there is no metrics segment and no status line either, at any
  clock reading and whatever the builtins are.
\<close>

theorem psnr_without_ssim:
  "valid_snapshot scenario_psnr_only \<and>
   lookup scenario_psnr_only ''last_eval_psnr'' = JFloat (Fin 25 0) \<and>
   lookup scenario_psnr_only ''last_eval_ssim'' = JNull \<and>
   metrics_segment scenario_psnr_only = Inl TypeError \<and>
   status_line B now scenario_psnr_only (JInt 100) = Inl TypeError"
  by (simp add: scenario_psnr_only_valid scenario_psnr_only_metrics
      scenario_psnr_only_status_line)

text \<open>
  Claim C4 has every valid parsed snapshot whose \<^verbatim>\<open>current_iteration\<close> differs from
  \<^verbatim>\<open>last_iteration\<close> emit exactly one line. The code breaks it by the same defect of lines 85
  to 88. The scenario's snapshot with a PSNR of 25.0 and a null SSIM is valid, and read in
  the initial state its iteration 100 differs from \<^verbatim>\<open>last_iteration\<close>, which is \<open>- 1\<close>. The
  pass sets \<^verbatim>\<open>last_iteration\<close> to 100, prints no line at all, and leaves the loop by the
  TypeError, which none of the three \<^verbatim>\<open>except\<close> clauses catches, whatever the interval and
  the clock reading are.
\<close>

theorem changed_iteration_without_line:
  "valid_snapshot scenario_psnr_only \<and>
   field scenario_psnr_only ''current_iteration'' = Some (JInt 100) \<and>
   last_iteration fresh = JInt (- 1) \<and>
   \<not> py_eq (JInt 100) (last_iteration fresh) \<and>
   poll B i now fresh (Parsed scenario_psnr_only) =
     (\<lparr>last_iteration = JInt 100, stdout = []\<rparr>, Uncaught TypeError)"
  by (simp add: scenario_psnr_only_valid scenario_psnr_only_poll) (simp add: fresh_def)

section \<open>Where change detection holds\<close>

lemma poll_rendered_located:
  assumes "field s ''current_iteration'' = Some c" and "\<not> py_eq c (last_iteration m)"
    and "status_line B now s c = Inr (JStr t, line)" and "export_located s"
  shows "fst (poll B i now m (Parsed s)) =
           \<lparr>last_iteration = c, stdout = stdout m @ line # terminal_notices B s t\<rparr> \<and>
         (snd (poll B i now m (Parsed s)) = Stop \<longleftrightarrow> t = ''completed'' \<or> t = ''error'') \<and>
         (t \<noteq> ''completed'' \<and> t \<noteq> ''error'' \<longrightarrow>
            snd (poll B i now m (Parsed s)) = snd (sleep_then_next i m))"
proof -
  consider (other) "t \<noteq> ''completed''" "t \<noteq> ''error''"
    | (failed) "t = ''error''"
    | (unnamed) "t = ''completed''" "\<not> truthy (lookup s ''current_export_file'')"
    | (located) p where "t = ''completed''" "truthy (lookup s ''current_export_file'')"
        "field s ''export_path'' = Some p"
    using assms(4) by (auto simp: export_located_def)
  then show ?thesis
  proof cases
    case other
    with assms(1-3) show ?thesis
      by (simp add: poll_rendered_other terminal_notices_def print_def sleep_then_next_def
          split: sum.splits)
  next
    case failed
    with assms(1-3) show ?thesis
      by (simp add: poll_rendered_error terminal_notices_def print_def)
  next
    case unnamed
    with assms(1-3) show ?thesis
      by (simp add: poll_rendered_completed_no_file terminal_notices_def print_def)
  next
    case located
    with assms(1-3) show ?thesis
      by (simp add: poll_rendered_completed_file terminal_notices_def final_output_def
          lookup_field print_def)
  qed
qed

lemma change_detection_paired:
  assumes "valid_snapshot s" and "metrics_paired s" and "export_located s"
    and "field s ''current_iteration'' = Some c"
  shows "(py_eq c (last_iteration m) \<longrightarrow> fst (poll B i now m (Parsed s)) = m) \<and>
         (\<not> py_eq c (last_iteration m) \<longrightarrow>
            (\<exists>t line.
               field s ''status'' = Some (JStr t) \<and>
               status_line B now s c = Inr (JStr t, line) \<and>
               fst (poll B i now m (Parsed s)) =
                 \<lparr>last_iteration = c, stdout = stdout m @ line # terminal_notices B s t\<rparr>))"
proof (intro conjI impI)
  assume "py_eq c (last_iteration m)"
  with assms(4) show "fst (poll B i now m (Parsed s)) = m"
    by (simp add: poll_unchanged)
next
  assume changed: "\<not> py_eq c (last_iteration m)"
  from status_line_valid [OF assms(1, 2)] obtain t line where
    t: "field s ''status'' = Some (JStr t)" and
    line: "status_line B now s c = Inr (JStr t, line)"
    by blast
  from poll_rendered_located [OF assms(4) changed line assms(3)] t line
  show "\<exists>t line.
      field s ''status'' = Some (JStr t) \<and>
      status_line B now s c = Inr (JStr t, line) \<and>
      fst (poll B i now m (Parsed s)) =
        \<lparr>last_iteration = c, stdout = stdout m @ line # terminal_notices B s t\<rparr>"
    by blast
qed

lemma poll_valid_outcome:
  assumes "valid_snapshot s" and "metrics_paired s" and "sleep i = Inr ()"
  shows "snd (poll B i now m (Parsed s)) = Next \<or> snd (poll B i now m (Parsed s)) = Stop"
proof -
  from required_field [OF valid_required(1) [OF assms(1)]] obtain c where
    c: "field s ''current_iteration'' = Some c"
    by blast
  show ?thesis
  proof (cases "py_eq c (last_iteration m)")
    case True
    with c show ?thesis
      by (simp add: poll_unchanged sleep_then_next_ok [OF assms(3)])
  next
    case False
    from status_line_valid [OF assms(1, 2)] obtain t line where
      line: "status_line B now s c = Inr (JStr t, line)"
      by blast
    note r = c False
    consider (other) "t \<noteq> ''completed''" "t \<noteq> ''error''"
      | (failed) "t = ''error''"
      | (unnamed) "t = ''completed''" "\<not> truthy (lookup s ''current_export_file'')"
      | (located) p where "t = ''completed''" "truthy (lookup s ''current_export_file'')"
          "field s ''export_path'' = Some p"
      | (unlocated) "t = ''completed''" "truthy (lookup s ''current_export_file'')"
          "field s ''export_path'' = None"
      by (cases "field s ''export_path''") auto
    then show ?thesis
    proof cases
      case other
      with line show ?thesis
        by (simp add: poll_rendered_other [OF r] sleep_then_next_ok [OF assms(3)])
    next
      case failed
      with line show ?thesis
        by (simp add: poll_rendered_error [OF r])
    next
      case unnamed
      with line show ?thesis
        by (simp add: poll_rendered_completed_no_file [OF r])
    next
      case located
      with line show ?thesis
        by (simp add: poll_rendered_completed_file [OF r])
    next
      case unlocated
      with line show ?thesis
        by (simp add: poll_rendered_completed_no_path [OF r] sleep_then_next_ok [OF assms(3)])
    qed
  qed
qed

lemma first_missing_absent:
  "first_missing s = Some k \<Longrightarrow> field s k = None \<and> k \<in> set render_keys"
  by (auto simp: first_missing_def find_Some_iff)

lemma poll_no_iteration:
  assumes "sleep i = Inr ()" and "field (JObj kvs) ''current_iteration'' = None"
  shows "poll B i now m (Parsed (JObj kvs)) =
           (print (missing_key_notice ''current_iteration'') m, Next)"
  using assms by (simp add: poll_without_iteration sleep_then_next_ok)

lemma poll_same_iteration:
  assumes "sleep i = Inr ()" and "field s ''current_iteration'' = Some c"
    and "py_eq c (last_iteration m)"
  shows "poll B i now m (Parsed s) = (m, Next)"
  using assms by (simp add: poll_unchanged sleep_then_next_ok)

section \<open>Anomalies of the artifact\<close>

text \<open>
  Claim C2, as stated, fails: the loop catches JSONDecodeError, FileNotFoundError and
  KeyError and nothing else. Well-formed JSON that is not an object, here the empty list,
  raises TypeError at \<^verbatim>\<open>status['current_iteration']\<close>; and a snapshot whose durations are
  null raises TypeError at \<^verbatim>\<open>seconds < 60\<close>, after \<^verbatim>\<open>last_iteration\<close> is set. Both leave the
  loop uncaught, with no notice printed.
\<close>

theorem uncaught_type_error_counterexample:
  "poll plain one_second ''09:34:56'' fresh (Parsed (JArr [])) = (fresh, Uncaught TypeError) \<and>
   field null_durations ''elapsed_time_seconds'' = Some JNull \<and>
   poll plain one_second ''09:34:56'' fresh (Parsed null_durations) =
     (\<lparr>last_iteration = JInt 100, stdout = []\<rparr>, Uncaught TypeError)"
  by (simp add: poll_parsed poll_body_def getitem_def handler_def null_durations_def field_def
      status_line_def format_duration_def py_less_def fresh_def)

text \<open>
  Claim C2, amended. With an interval that \<^verbatim>\<open>time.sleep\<close> accepts, the anomalies the loop
  provides for each print one notice and let the loop go on to its next pass: no file, a
  file gone when it is opened, text that is not JSON, and a JSON object that lacks a key
  the pass reads. The key \<^verbatim>\<open>current_iteration\<close> is always read; the other keys are read, in
  the order of \<open>render_keys\<close>, when the iteration has changed, and the notice then names the
  first key that is missing (the durations, where present, being floats); when the
  iteration has not changed the pass prints nothing and goes on. A valid snapshot whose
  evaluation metrics are set together raises nothing either: the pass goes on or ends the
  loop.
\<close>

theorem anomalies_reported:
  assumes "sleep i = Inr ()"
  shows "poll B i now m Absent =
           (print ''Status file not found, waiting for training to start...'' m, Next) \<and>
         poll B i now m Vanished = (print ''Status file disappeared, waiting...'' m, Next) \<and>
         poll B i now m Malformed = (print ''Status file corrupted, retrying...'' m, Next) \<and>
         (field (JObj kvs) ''current_iteration'' = None \<longrightarrow>
            poll B i now m (Parsed (JObj kvs)) =
              (print (missing_key_notice ''current_iteration'') m, Next)) \<and>
         (field (JObj kvs) ''current_iteration'' = Some c \<and>
          first_missing (JObj kvs) = Some k \<and>
          float_if_present (JObj kvs) ''elapsed_time_seconds'' \<and>
          float_if_present (JObj kvs) ''estimated_remaining_seconds'' \<longrightarrow>
            stdout (fst (poll B i now m (Parsed (JObj kvs)))) =
              stdout m @ (if py_eq c (last_iteration m) then [] else [missing_key_notice k]) \<and>
            snd (poll B i now m (Parsed (JObj kvs))) = Next) \<and>
         (valid_snapshot s \<and> metrics_paired s \<longrightarrow>
            snd (poll B i now m (Parsed s)) = Next \<or> snd (poll B i now m (Parsed s)) = Stop)"
proof (intro conjI impI)
  show "poll B i now m Absent =
      (print ''Status file not found, waiting for training to start...'' m, Next)"
    by (simp add: poll_absent assms)
  show "poll B i now m Vanished = (print ''Status file disappeared, waiting...'' m, Next)"
    by (simp add: poll_vanished sleep_then_next_ok [OF assms])
  show "poll B i now m Malformed = (print ''Status file corrupted, retrying...'' m, Next)"
    by (simp add: poll_malformed sleep_then_next_ok [OF assms])
  show "poll B i now m (Parsed (JObj kvs)) =
      (print (missing_key_notice ''current_iteration'') m, Next)"
    if "field (JObj kvs) ''current_iteration'' = None"
    using assms that by (rule poll_no_iteration)
  show "snd (poll B i now m (Parsed s)) = Next \<or> snd (poll B i now m (Parsed s)) = Stop"
    if "valid_snapshot s \<and> metrics_paired s"
    using that assms by (simp add: poll_valid_outcome)
next
  assume a: "field (JObj kvs) ''current_iteration'' = Some c \<and>
    first_missing (JObj kvs) = Some k \<and>
    float_if_present (JObj kvs) ''elapsed_time_seconds'' \<and>
    float_if_present (JObj kvs) ''estimated_remaining_seconds''"
  have "stdout (fst (poll B i now m (Parsed (JObj kvs)))) =
      stdout m @ (if py_eq c (last_iteration m) then [] else [missing_key_notice k]) \<and>
      snd (poll B i now m (Parsed (JObj kvs))) = Next"
  proof (cases "py_eq c (last_iteration m)")
    case True
    with a assms show ?thesis
      by (simp add: poll_same_iteration)
  next
    case False
    with a assms show ?thesis
      by (simp add: poll_first_missing)
  qed
  then show "stdout (fst (poll B i now m (Parsed (JObj kvs)))) =
      stdout m @ (if py_eq c (last_iteration m) then [] else [missing_key_notice k])"
    and "snd (poll B i now m (Parsed (JObj kvs))) = Next"
    by simp_all
qed

theorem anomalies_reported_witness:
  "sleep one_second = Inr () \<and>
   poll plain one_second ''09:34:56'' fresh Absent =
     (\<lparr>last_iteration = JInt (- 1),
       stdout = [''Status file not found, waiting for training to start...'']\<rparr>, Next) \<and>
   poll plain one_second ''09:34:56'' fresh Vanished =
     (\<lparr>last_iteration = JInt (- 1), stdout = [''Status file disappeared, waiting...'']\<rparr>, Next) \<and>
   poll plain one_second ''09:34:56'' fresh Malformed =
     (\<lparr>last_iteration = JInt (- 1), stdout = [''Status file corrupted, retrying...'']\<rparr>, Next) \<and>
   field (JObj []) ''current_iteration'' = None \<and>
   poll plain one_second ''09:34:56'' fresh (Parsed (JObj [])) =
     (\<lparr>last_iteration = JInt (- 1),
       stdout = [missing_key_notice ''current_iteration'']\<rparr>, Next) \<and>
   field (iteration_only 5) ''current_iteration'' = Some (JInt 5) \<and>
   first_missing (iteration_only 5) = Some ''progress_percentage'' \<and>
   float_if_present (iteration_only 5) ''elapsed_time_seconds'' \<and>
   float_if_present (iteration_only 5) ''estimated_remaining_seconds'' \<and>
   \<not> py_eq (JInt 5) (last_iteration fresh) \<and>
   stdout (fst (poll plain one_second ''09:34:56'' fresh (Parsed (iteration_only 5)))) =
     [missing_key_notice ''progress_percentage''] \<and>
   snd (poll plain one_second ''09:34:56'' fresh (Parsed (iteration_only 5))) = Next \<and>
   valid_snapshot scenario \<and> metrics_paired scenario \<and>
   (snd (poll plain one_second ''09:34:56'' fresh (Parsed scenario)) = Next \<or>
    snd (poll plain one_second ''09:34:56'' fresh (Parsed scenario)) = Stop)"
proof -
  note empty = anomalies_reported [OF sleep_one_second, of plain "''09:34:56''" fresh "[]"
      "JInt 5" "''progress_percentage''" scenario]
  note only = anomalies_reported [OF sleep_one_second, of plain "''09:34:56''" fresh
      "[(''current_iteration'', JInt 5)]" "JInt 5" "''progress_percentage''" scenario]
  have h: "field (JObj []) ''current_iteration'' = None"
    "field (iteration_only 5) ''current_iteration'' = Some (JInt 5)"
    "first_missing (iteration_only 5) = Some ''progress_percentage''"
    "float_if_present (iteration_only 5) ''elapsed_time_seconds''"
    "float_if_present (iteration_only 5) ''estimated_remaining_seconds''"
    "\<not> py_eq (JInt 5) (last_iteration fresh)"
    by (simp_all add: field_def iteration_only_def first_missing_def render_keys_def
        float_if_present_def fresh_def)
  from empty h(1) have 1: "poll plain one_second ''09:34:56'' fresh (Parsed (JObj [])) =
      (print (missing_key_notice ''current_iteration'') fresh, Next)"
    by blast
  from only h(2-5) have 2:
    "stdout (fst (poll plain one_second ''09:34:56'' fresh (Parsed (iteration_only 5)))) =
       stdout fresh @ (if py_eq (JInt 5) (last_iteration fresh) then []
                       else [missing_key_notice ''progress_percentage''])"
    "snd (poll plain one_second ''09:34:56'' fresh (Parsed (iteration_only 5))) = Next"
    unfolding iteration_only_def by blast+
  from only scenario_valid(1, 2) have 3:
    "snd (poll plain one_second ''09:34:56'' fresh (Parsed scenario)) = Next \<or>
     snd (poll plain one_second ''09:34:56'' fresh (Parsed scenario)) = Stop"
    by blast
  from only have 4: "poll plain one_second ''09:34:56'' fresh Absent =
      (print ''Status file not found, waiting for training to start...'' fresh, Next)"
    "poll plain one_second ''09:34:56'' fresh Vanished =
      (print ''Status file disappeared, waiting...'' fresh, Next)"
    "poll plain one_second ''09:34:56'' fresh Malformed =
      (print ''Status file corrupted, retrying...'' fresh, Next)"
    by blast+
  have f: "stdout fresh = []" "print t fresh = \<lparr>last_iteration = JInt (- 1), stdout = [t]\<rparr>" for t
    by (simp_all add: fresh_def print_def)
  from 1 2 3 4 h scenario_valid(1, 2) show ?thesis
    by (simp add: f)
qed

section \<open>Missing keys\<close>

text \<open>
  Claim C3, as stated, fails: the keys of a snapshot other than \<^verbatim>\<open>current_iteration\<close> are
  read only under \<^verbatim>\<open>if current_iter != last_iteration\<close>. A snapshot that holds nothing but
  the iteration already seen misses six of the keys, and the pass prints no notice.
\<close>

theorem unreported_missing_key_counterexample:
  "field (iteration_only 100) ''status'' = None \<and>
   first_missing (iteration_only 100) = Some ''progress_percentage'' \<and>
   poll plain one_second ''09:34:56'' (seen 100) (Parsed (iteration_only 100)) =
     (seen 100, Next) \<and>
   stdout (seen 100) = []"
  by (simp add: poll_unchanged [where c = "JInt 100"] iteration_only_def field_def
      first_missing_def render_keys_def seen_def sleep_then_next_def)

text \<open>
  Claim C3, amended. With an interval that \<^verbatim>\<open>time.sleep\<close> accepts, for every parsed object:
  when \<^verbatim>\<open>current_iteration\<close> is missing, the pass prints the notice that names it, leaves
  \<^verbatim>\<open>last_iteration\<close> as it is and goes on; when \<^verbatim>\<open>current_iteration\<close> is there and equals
  \<^verbatim>\<open>last_iteration\<close>, no other key is read: the pass prints nothing, leaves the state as it
  is and goes on; when \<^verbatim>\<open>current_iteration\<close> is there and differs from \<^verbatim>\<open>last_iteration\<close>, and
  one of the keys \<^verbatim>\<open>progress_percentage\<close>, \<^verbatim>\<open>elapsed_time_seconds\<close>,
  \<^verbatim>\<open>estimated_remaining_seconds\<close>, \<^verbatim>\<open>current_splat_count\<close>, \<^verbatim>\<open>status\<close>, \<^verbatim>\<open>total_iterations\<close>
  is missing (the durations, where present, being floats), the pass prints one notice, which
  names the first of them in this order that is missing, and goes on.
\<close>

theorem missing_key_reported:
  assumes "sleep i = Inr ()"
  shows "(field (JObj kvs) ''current_iteration'' = None \<longrightarrow>
            stdout (fst (poll B i now m (Parsed (JObj kvs)))) =
              stdout m @ [missing_key_notice ''current_iteration''] \<and>
            last_iteration (fst (poll B i now m (Parsed (JObj kvs)))) = last_iteration m \<and>
            snd (poll B i now m (Parsed (JObj kvs))) = Next) \<and>
         (field (JObj kvs) ''current_iteration'' = Some c \<and> py_eq c (last_iteration m) \<longrightarrow>
            poll B i now m (Parsed (JObj kvs)) = (m, Next)) \<and>
         (field (JObj kvs) ''current_iteration'' = Some c \<and> \<not> py_eq c (last_iteration m) \<and>
          first_missing (JObj kvs) = Some k \<and>
          float_if_present (JObj kvs) ''elapsed_time_seconds'' \<and>
          float_if_present (JObj kvs) ''estimated_remaining_seconds'' \<longrightarrow>
            field (JObj kvs) k = None \<and> k \<in> set render_keys \<and>
            stdout (fst (poll B i now m (Parsed (JObj kvs)))) =
              stdout m @ [missing_key_notice k] \<and>
            snd (poll B i now m (Parsed (JObj kvs))) = Next)"
proof -
  have none: "stdout (fst (poll B i now m (Parsed (JObj kvs)))) =
        stdout m @ [missing_key_notice ''current_iteration''] \<and>
      last_iteration (fst (poll B i now m (Parsed (JObj kvs)))) = last_iteration m \<and>
      snd (poll B i now m (Parsed (JObj kvs))) = Next"
    if "field (JObj kvs) ''current_iteration'' = None"
    by (simp add: poll_no_iteration [OF assms that])
  have same: "poll B i now m (Parsed (JObj kvs)) = (m, Next)"
    if "field (JObj kvs) ''current_iteration'' = Some c \<and> py_eq c (last_iteration m)"
    using assms that by (simp add: poll_same_iteration)
  have new: "field (JObj kvs) k = None \<and> k \<in> set render_keys \<and>
      stdout (fst (poll B i now m (Parsed (JObj kvs)))) = stdout m @ [missing_key_notice k] \<and>
      snd (poll B i now m (Parsed (JObj kvs))) = Next"
    if "field (JObj kvs) ''current_iteration'' = Some c \<and> \<not> py_eq c (last_iteration m) \<and>
      first_missing (JObj kvs) = Some k \<and>
      float_if_present (JObj kvs) ''elapsed_time_seconds'' \<and>
      float_if_present (JObj kvs) ''estimated_remaining_seconds''"
  proof -
    from that have "field (JObj kvs) k = None \<and> k \<in> set render_keys"
      by (blast dest: first_missing_absent)
    with assms that show ?thesis
      by (simp add: poll_first_missing)
  qed
  from none same new show ?thesis
    by blast
qed

theorem missing_key_reported_witness:
  "sleep one_second = Inr () \<and>
   field (JObj [(''status'', JStr ''training'')]) ''current_iteration'' = None \<and>
   stdout (fst (poll plain one_second ''09:34:56'' (seen 7)
     (Parsed (JObj [(''status'', JStr ''training'')])))) =
     [missing_key_notice ''current_iteration''] \<and>
   last_iteration (fst (poll plain one_second ''09:34:56'' (seen 7)
     (Parsed (JObj [(''status'', JStr ''training'')])))) = JInt 7 \<and>
   snd (poll plain one_second ''09:34:56'' (seen 7)
     (Parsed (JObj [(''status'', JStr ''training'')]))) = Next \<and>
   field (iteration_only 7) ''current_iteration'' = Some (JInt 7) \<and>
   py_eq (JInt 7) (last_iteration (seen 7)) \<and>
   poll plain one_second ''09:34:56'' (seen 7) (Parsed (iteration_only 7)) = (seen 7, Next) \<and>
   field (iteration_only 8) ''current_iteration'' = Some (JInt 8) \<and>
   \<not> py_eq (JInt 8) (last_iteration (seen 7)) \<and>
   first_missing (iteration_only 8) = Some ''progress_percentage'' \<and>
   float_if_present (iteration_only 8) ''elapsed_time_seconds'' \<and>
   float_if_present (iteration_only 8) ''estimated_remaining_seconds'' \<and>
   field (iteration_only 8) ''progress_percentage'' = None \<and>
   stdout (fst (poll plain one_second ''09:34:56'' (seen 7) (Parsed (iteration_only 8)))) =
     [missing_key_notice ''progress_percentage''] \<and>
   snd (poll plain one_second ''09:34:56'' (seen 7) (Parsed (iteration_only 8))) = Next"
proof -
  note none = missing_key_reported [OF sleep_one_second, of "[(''status'', JStr ''training'')]"
      plain "''09:34:56''" "seen 7" "JInt 7" "''progress_percentage''"]
  note same = missing_key_reported [OF sleep_one_second, of "[(''current_iteration'', JInt 7)]"
      plain "''09:34:56''" "seen 7" "JInt 7" "''progress_percentage''"]
  note new = missing_key_reported [OF sleep_one_second, of "[(''current_iteration'', JInt 8)]"
      plain "''09:34:56''" "seen 7" "JInt 8" "''progress_percentage''"]
  have h: "field (JObj [(''status'', JStr ''training'')]) ''current_iteration'' = None"
    "field (iteration_only 7) ''current_iteration'' = Some (JInt 7)"
    "py_eq (JInt 7) (last_iteration (seen 7))"
    "field (iteration_only 8) ''current_iteration'' = Some (JInt 8)"
    "\<not> py_eq (JInt 8) (last_iteration (seen 7))"
    "first_missing (iteration_only 8) = Some ''progress_percentage''"
    "float_if_present (iteration_only 8) ''elapsed_time_seconds''"
    "float_if_present (iteration_only 8) ''estimated_remaining_seconds''"
    by (simp_all add: field_def iteration_only_def first_missing_def render_keys_def
        float_if_present_def seen_def)
  from none h(1) have 1:
    "stdout (fst (poll plain one_second ''09:34:56'' (seen 7)
       (Parsed (JObj [(''status'', JStr ''training'')])))) =
       stdout (seen 7) @ [missing_key_notice ''current_iteration'']"
    "last_iteration (fst (poll plain one_second ''09:34:56'' (seen 7)
       (Parsed (JObj [(''status'', JStr ''training'')])))) = last_iteration (seen 7)"
    "snd (poll plain one_second ''09:34:56'' (seen 7)
       (Parsed (JObj [(''status'', JStr ''training'')]))) = Next"
    by blast+
  from same h(2, 3) have 2:
    "poll plain one_second ''09:34:56'' (seen 7) (Parsed (iteration_only 7)) = (seen 7, Next)"
    unfolding iteration_only_def by blast
  from new h(4-8) have 3:
    "field (iteration_only 8) ''progress_percentage'' = None"
    "stdout (fst (poll plain one_second ''09:34:56'' (seen 7) (Parsed (iteration_only 8)))) =
       stdout (seen 7) @ [missing_key_notice ''progress_percentage'']"
    "snd (poll plain one_second ''09:34:56'' (seen 7) (Parsed (iteration_only 8))) = Next"
    unfolding iteration_only_def by blast+
  have f: "stdout (seen 7) = []" "last_iteration (seen 7) = JInt 7"
    by (simp_all add: seen_def)
  from 1 2 3 h show ?thesis
    unfolding f by simp
qed

section \<open>The poll interval\<close>

text \<open>
  Claim C9, as stated, fails: the interval is never looked at before the loop. With the
  interval 0.0 the loop is entered and goes on, pass after pass (here two passes that find
  no file); with the interval \<open>- 1.0\<close> the loop is entered as well, the first pass prints
  its notice, and only then does \<^verbatim>\<open>time.sleep\<close> refuse the negative length, with a
  ValueError that nothing catches.
\<close>

theorem non_positive_interval_counterexample:
  "monitor_training_progress plain ''training_status.json'' (Fin 0 0)
     [Tick ''09:34:56'' Absent, Tick ''09:34:57'' Absent] =
     (\<lparr>last_iteration = JInt (- 1),
       stdout = [''Monitoring training progress from: training_status.json'',
                 ''Press Ctrl+C to stop monitoring'' @ [CHR 0x0A],
                 ''Status file not found, waiting for training to start...'',
                 ''Status file not found, waiting for training to start...'']\<rparr>, Polling) \<and>
   monitor_training_progress plain ''training_status.json'' (Fin (- 1) 0)
     [Tick ''09:34:56'' Absent, Tick ''09:34:57'' Absent] =
     (\<lparr>last_iteration = JInt (- 1),
       stdout = [''Monitoring training progress from: training_status.json'',
                 ''Press Ctrl+C to stop monitoring'' @ [CHR 0x0A],
                 ''Status file not found, waiting for training to start...'']\<rparr>,
      Raised ValueError)"
  by (simp add: monitor_training_progress_def initial_def poll_absent sleep_zero
      sleep_minus_one print_def)

text \<open>
  Claim C9, amended. The monitor does not validate the interval. Whatever the interval
  is, a pass reads the artifact and leaves the state and the output it leaves with the
  default interval of one second, and the monitor, after its two opening lines, makes its
  first pass. An interval that \<^verbatim>\<open>time.sleep\<close> accepts, zero and negative zero among them,
  gives the pass the outcome it has with the default interval. An interval that
  \<^verbatim>\<open>time.sleep\<close> refuses, every negative one among them, is found out only by the first
  \<^verbatim>\<open>time.sleep\<close>: the pass does not go on to a next pass, it ends the loop by a terminal
  status or leaves it by an exception.
\<close>

theorem interval_not_validated:
  "fst (poll B i now m a) = fst (poll B one_second now m a) \<and>
   (\<exists>out. stdout (fst (monitor_training_progress B status_file i (Tick now a # obs))) =
      stdout (fst (poll B one_second now (initial status_file) a)) @ out) \<and>
   (sleep i = Inr () \<longrightarrow> poll B i now m a = poll B one_second now m a) \<and>
   (sleep i \<noteq> Inr () \<longrightarrow> snd (poll B i now m a) \<noteq> Next) \<and>
   sleep (Fin 0 e) = Inr () \<and> sleep NegZero = Inr () \<and>
   (n < 0 \<longrightarrow> sleep (Fin n e) \<noteq> Inr ())"
proof (intro conjI impI)
  show "fst (poll B i now m a) = fst (poll B one_second now m a)"
    by (rule fst_poll_interval)
  show "\<exists>out. stdout (fst (monitor_training_progress B status_file i (Tick now a # obs))) =
      stdout (fst (poll B one_second now (initial status_file) a)) @ out"
    unfolding monitor_training_progress_def by (rule run_first_pass)
  show "poll B i now m a = poll B one_second now m a" if "sleep i = Inr ()"
    using that sleep_one_second by (rule poll_interval_slept)
  show "snd (poll B i now m a) \<noteq> Next" if "sleep i \<noteq> Inr ()"
    using that by (rule poll_interval_refused)
  show "sleep (Fin 0 e) = Inr ()"
    by (rule sleep_zero)
  show "sleep NegZero = Inr ()"
    by (rule sleep_negative_zero)
  show "sleep (Fin n e) \<noteq> Inr ()" if "n < 0"
    using that by (rule sleep_negative)
qed

theorem interval_not_validated_witness:
  "sleep (Fin 0 0) = Inr () \<and>
   poll plain (Fin 0 0) ''09:34:56'' fresh (Parsed scenario) =
     (\<lparr>last_iteration = JInt 100, stdout = [scenario_line ''09:34:56'' ''training'']\<rparr>, Next) \<and>
   (- 1 :: int) < 0 \<and> sleep (Fin (- 1) 0) \<noteq> Inr () \<and>
   fst (poll plain (Fin (- 1) 0) ''09:34:56'' fresh (Parsed scenario)) =
     \<lparr>last_iteration = JInt 100, stdout = [scenario_line ''09:34:56'' ''training'']\<rparr> \<and>
   snd (poll plain (Fin (- 1) 0) ''09:34:56'' fresh (Parsed scenario)) \<noteq> Next"
proof -
  note zero = interval_not_validated [of plain "Fin 0 0" "''09:34:56''" fresh "Parsed scenario"
      "''training_status.json''" "[]" 0 "- 1"]
  note minus = interval_not_validated [of plain "Fin (- 1) 0" "''09:34:56''" fresh
      "Parsed scenario" "''training_status.json''" "[]" 0 "- 1"]
  have s: "poll plain one_second ''09:34:56'' fresh (Parsed scenario) =
      (\<lparr>last_iteration = JInt 100, stdout = [scenario_line ''09:34:56'' ''training'']\<rparr>, Next)"
    by (simp add: poll_parsed poll_body_def scenario_fields fresh_def scenario_status_line
        check_completed_def sleep_then_next_def print_def)
  from zero have z: "sleep (Fin 0 0) = Inr ()"
    by blast
  with zero have 1: "poll plain (Fin 0 0) ''09:34:56'' fresh (Parsed scenario) =
      poll plain one_second ''09:34:56'' fresh (Parsed scenario)"
    by blast
  from minus have n: "sleep (Fin (- 1) 0) \<noteq> Inr ()"
    by simp
  with minus have 2: "snd (poll plain (Fin (- 1) 0) ''09:34:56'' fresh (Parsed scenario)) \<noteq> Next"
    by blast
  from minus have 3: "fst (poll plain (Fin (- 1) 0) ''09:34:56'' fresh (Parsed scenario)) =
      fst (poll plain one_second ''09:34:56'' fresh (Parsed scenario))"
    by blast
  from z 1 n 2 3 s show ?thesis
    by simp
qed

end
